theory Spec2Isabelle
  imports Main "HOL-Library.Multiset" "HOL-Library.List_Lexorder"
begin

section \<open>The Go class projection of jsii-pacmak (lib/targets/go/types/class.ts)\<close>

subsection \<open>The type model the projection reads\<close>

text \<open>
  The projection reads a jsii-reflect type model. Of the objects that \<^verbatim>\<open>class.ts\<close> is
  handed by jsii-reflect and by its sibling modules, the model keeps the attributes that
  \<^verbatim>\<open>class.ts\<close> reads. Type objects are unique per fully-qualified name, so the reference comparison
  \<^verbatim>\<open>method.definingType !== type\<close> is a comparison of names, and a \<^verbatim>\<open>Package\<close> object
  (compared with \<^verbatim>\<open>===\<close>) is represented by its identity.
\<close>

type_synonym Package = string
type_synonym TypeReference = string
type_synonym Parameter = string

record Docs =
  summary :: "string option"
  docstring :: string

record Type =
  fqn :: string
  assembly :: string
  reference :: TypeReference
  docs :: Docs

record GoTypeRef =
  ref :: TypeReference
  void :: bool

record Member =
  name :: string
  static :: bool
  definingType :: string
  docs :: Docs

text \<open>
  A \<open>Method\<close> stands for the jsii-reflect method together with what its Go wrapper
  (\<^verbatim>\<open>GoMethod\<close>, of \<^verbatim>\<open>type-member.ts\<close>) derives from it: the wrapper's
  \<^verbatim>\<open>reference\<close> and the result of \<^verbatim>\<open>paramString()\<close>; \<open>toString\<close> is
  \<^verbatim>\<open>method.toString()\<close>. Likewise a \<open>Property\<close> carries the wrapper's \<^verbatim>\<open>immutable\<close> and
  \<^verbatim>\<open>returnType\<close>. Every wrapper of a class is built with \<^verbatim>\<open>parent = this\<close>; the wrapper's
  functions below take the parent as an argument instead of a back-pointer.
\<close>

record Method = Member +
  reference :: "GoTypeRef option"
  paramString :: string
  toString :: string

record Property = Member +
  immutable :: bool
  returnType :: string

record Initializer =
  parameters :: "Parameter list"
  docs :: Docs

subsection \<open>Classes as jsii-reflect presents them\<close>

text \<open>
  A class has at most one base class, so its resolved base classes form a chain:
  \<open>bases\<close> lists them, the direct base class first and the top-most class last. A
  \<open>ClassDecl\<close> is what one class of the chain declares itself. The members that a class
  declares are given as \<open>Method\<close> and \<open>Property\<close> values; jsii-reflect creates the
  member objects of a class with \<^verbatim>\<open>definingType\<close> set to the class that declares them
  (\<^verbatim>\<open>new Method(system, assembly, parentType, this, spec)\<close>), which \<open>declaredBy\<close> does.
\<close>

record ClassDecl = Type +
  interfaces :: "Type list"
  declaredMethods :: "Method list"
  declaredProperties :: "Property list"

record ClassType = ClassDecl +
  bases :: "ClassDecl list"
  initializer :: "Initializer option"

definition base :: "ClassType \<Rightarrow> ClassDecl option" where
  "base ty = (case bases ty of [] \<Rightarrow> None | b # bs \<Rightarrow> Some b)"

text \<open>
  \<^verbatim>\<open>getAncestors()\<close> of jsii-reflect returns the base classes of a class, the direct
  base class first: the base class, followed by the ancestors of the base class. It
  does not return interfaces.
\<close>

definition getAncestors :: "ClassType \<Rightarrow> ClassDecl list" where
  "getAncestors ty = bases ty"

text \<open>
  The members of a class are the values of an object that is indexed by member name
  (\<^verbatim>\<open>Object.values(this.getMethods(inherited))\<close>). Such an object is an association list
  in insertion order: \<open>set_key\<close> is an assignment \<^verbatim>\<open>obj[k] = v\<close>, which keeps the place
  of a key that is present and appends a new one; \<open>assign\<close> is \<^verbatim>\<open>Object.assign\<close> and
  \<open>indexBy\<close> the helper of that name. \<^verbatim>\<open>_getMethods\<close> takes the members of the base
  class first and assigns the members that the class declares over them, so a member
  that is declared again replaces the inherited one of the same name.
\<close>

fun set_key :: "string \<Rightarrow> 'a \<Rightarrow> (string \<times> 'a) list \<Rightarrow> (string \<times> 'a) list" where
  "set_key k v [] = [(k, v)]"
| "set_key k v ((k', v') # kvs) =
     (if k' = k then (k, v) # kvs else (k', v') # set_key k v kvs)"

definition assign :: "(string \<times> 'a) list \<Rightarrow> (string \<times> 'a) list \<Rightarrow> (string \<times> 'a) list" where
  "assign target source = fold (\<lambda>kv. set_key (fst kv) (snd kv)) source target"

definition indexBy :: "('a \<Rightarrow> string) \<Rightarrow> 'a list \<Rightarrow> (string \<times> 'a) list" where
  "indexBy key xs = fold (\<lambda>x. set_key (key x) x) xs []"

definition declaredBy :: "ClassDecl \<Rightarrow> 'z Member_scheme \<Rightarrow> 'z Member_scheme" where
  "declaredBy c m = m\<lparr> definingType := Type.fqn c \<rparr>"

fun getMethods :: "ClassDecl list \<Rightarrow> (string \<times> Method) list" where
  "getMethods [] = []"
| "getMethods (c # cs) =
     assign (getMethods cs) (indexBy Member.name (map (declaredBy c) (declaredMethods c)))"

fun getProperties :: "ClassDecl list \<Rightarrow> (string \<times> Property) list" where
  "getProperties [] = []"
| "getProperties (c # cs) =
     assign (getProperties cs) (indexBy Member.name (map (declaredBy c) (declaredProperties c)))"

definition ownMethods :: "ClassType \<Rightarrow> Method list" where
  "ownMethods ty = map snd (getMethods [ClassDecl.truncate ty])"

definition ownProperties :: "ClassType \<Rightarrow> Property list" where
  "ownProperties ty = map snd (getProperties [ClassDecl.truncate ty])"

definition allMethods :: "ClassType \<Rightarrow> Method list" where
  "allMethods ty = map snd (getMethods (ClassDecl.truncate ty # bases ty))"

definition allProperties :: "ClassType \<Rightarrow> Property list" where
  "allProperties ty = map snd (getProperties (ClassDecl.truncate ty # bases ty))"

subsection \<open>The Go types\<close>

text \<open>
  \<open>GoType\<close> is the base class of \<^verbatim>\<open>GoClass\<close> (\<^verbatim>\<open>go-type.ts\<close>): the object that
  \<^verbatim>\<open>super(pkg, type)\<close> initialises.
\<close>

record 't GoType =
  pkg :: Package
  type :: 't
  name :: string
  proxyName :: string
  fqn :: string

record GoClassConstructor =
  type :: Initializer
  parameters :: "Parameter list"

text \<open>
  The private caches \<^verbatim>\<open>_extends\<close> and \<^verbatim>\<open>_implements\<close> are \<open>extends'\<close> and
  \<open>implements'\<close>. \<open>None\<close> is \<^verbatim>\<open>undefined\<close>; for \<open>extends'\<close>, \<open>Some None\<close> is
  \<^verbatim>\<open>null\<close>. An optional field that was never assigned is \<open>None\<close>.
\<close>

record GoClass = "ClassType GoType" +
  methods :: "Method list"
  staticMethods :: "Method list"
  properties :: "Property list"
  staticProperties :: "Property list"
  reimplementedMethods :: "Method list option"
  reimplementedProperties :: "Property list option"
  extends' :: "Type GoType option option"
  implements' :: "Type GoType list option"
  initializer :: "GoClassConstructor option"

text \<open>
  What \<^verbatim>\<open>class.ts\<close> calls in other modules is a parameter:
  \<^item> \<open>collate\<close>: the order of \<^verbatim>\<open>String.prototype.localeCompare\<close>, as a key into a linear
    order (\<^verbatim>\<open>l.localeCompare(r) <= 0\<close> iff \<open>collate l \<le> collate r\<close>); \<^verbatim>\<open>comparators.byName\<close>
    compares the \<^verbatim>\<open>name\<close>s of two members in that order;
  \<^item> \<open>findType\<close>: \<^verbatim>\<open>pkg.root.findType\<close>, whose result the source casts to \<^verbatim>\<open>GoClass\<close> or
    \<^verbatim>\<open>GoInterface\<close>: every reference resolves;
  \<^item> \<open>scopedInterfaceName r p\<close>: \<^verbatim>\<open>new GoTypeRef(p.root, r).scopedInterfaceName(p)\<close>;
  \<^item> \<open>toPascalCase\<close> (codemaker), \<open>toLowerCase\<close> (the string method) and
    \<open>paramToString\<close> (\<^verbatim>\<open>new GoParameter(parent, param).toString()\<close>).
  \<^verbatim>\<open>Array.prototype.sort\<close> is stable (ECMAScript 2019); it is \<open>sort_key\<close>.
\<close>

record 'k Externals =
  collate :: "string \<Rightarrow> 'k"
  findType :: "string \<Rightarrow> Type GoType"
  scopedInterfaceName :: "TypeReference \<Rightarrow> Package \<Rightarrow> string"
  toPascalCase :: "string \<Rightarrow> string"
  toLowerCase :: "string \<Rightarrow> string"
  paramToString :: "Parameter \<Rightarrow> string"

definition byName :: "('k::linorder) Externals \<Rightarrow> 'z Member_scheme \<Rightarrow> 'k" where
  "byName env m = collate env (Member.name m)"

subsection \<open>The constructors\<close>

text \<open>
  A \<^verbatim>\<open>GoParameter\<close> is represented by the parameter that it wraps; \<open>paramToString\<close>
  renders it.
\<close>

definition GoClassConstructor_new :: "Initializer \<Rightarrow> GoClassConstructor" where
  "GoClassConstructor_new ty =
     \<lparr> GoClassConstructor.type = ty,
       GoClassConstructor.parameters = map (\<lambda>param. param) (Initializer.parameters ty) \<rparr>"

definition hasMultipleBases :: "ClassType \<Rightarrow> bool" where
  "hasMultipleBases ty = (length (interfaces ty) > (if base ty \<noteq> None then 0 else 1))"

definition GoClass_new :: "('k::linorder) Externals \<Rightarrow> ClassType GoType \<Rightarrow> GoClass" where
  "GoClass_new env super =
     (let ty = GoType.type super;
          flatten = (hasMultipleBases ty \<and>
                     list_ex (\<lambda>ancestor. assembly ancestor \<noteq> assembly ty) (getAncestors ty))
      in \<lparr> pkg = pkg super,
           GoType.type = ty,
           GoType.name = GoType.name super,
           proxyName = proxyName super,
           GoType.fqn = GoType.fqn super,
           methods = sort_key (byName env) (filter (\<lambda>method. \<not> static method) (ownMethods ty)),
           staticMethods = sort_key (byName env) (filter (\<lambda>method. static method) (ownMethods ty)),
           properties = sort_key (byName env) (filter (\<lambda>prop. \<not> static prop) (ownProperties ty)),
           staticProperties = sort_key (byName env) (filter (\<lambda>prop. static prop) (ownProperties ty)),
           reimplementedMethods =
             (if flatten
              then Some (sort_key (byName env)
                     (filter (\<lambda>method. \<not> static method \<and> definingType method \<noteq> Type.fqn ty)
                        (allMethods ty)))
              else None),
           reimplementedProperties =
             (if flatten
              then Some (sort_key (byName env)
                     (filter (\<lambda>property. \<not> static property \<and> definingType property \<noteq> Type.fqn ty)
                        (allProperties ty)))
              else None),
           extends' = None,
           implements' = None,
           initializer =
             (case ClassType.initializer ty of
                Some i \<Rightarrow> Some (GoClassConstructor_new i)
              | None \<Rightarrow> None) \<rparr>)"

subsection \<open>The lazily resolved ancestors\<close>

text \<open>
  A getter returns its value and the object, whose cache it may have filled.
  \<^verbatim>\<open>this._extends == null ? undefined : this._extends\<close> maps both \<^verbatim>\<open>null\<close> and
  \<^verbatim>\<open>undefined\<close> to \<^verbatim>\<open>undefined\<close>.
\<close>

definition extends :: "'k Externals \<Rightarrow> GoClass \<Rightarrow> Type GoType option \<times> GoClass" where
  "extends env this =
     (let this' =
        (if extends' this = None
         then this\<lparr> extends' :=
                Some (case base (GoType.type this) of
                        Some b \<Rightarrow> Some (findType env (Type.fqn b))
                      | None \<Rightarrow> None) \<rparr>
         else this)
      in (case extends' this' of None \<Rightarrow> None | Some v \<Rightarrow> v, this'))"

definition "implements" :: "('k::linorder) Externals \<Rightarrow> GoClass \<Rightarrow> Type GoType list \<times> GoClass" where
  "implements env this =
     (case implements' this of
        None \<Rightarrow>
          (let v = sort_key (\<lambda>g. collate env (GoType.fqn g))
                     (map (\<lambda>iface. findType env (Type.fqn iface)) (interfaces (GoType.type this)))
           in (v, this\<lparr> implements' := Some v \<rparr>))
      | Some v \<Rightarrow> (v, this))"

subsection \<open>What is emitted\<close>

text \<open>
  The output is the sequence of calls made on the code maker (\<^verbatim>\<open>line\<close>,
  \<^verbatim>\<open>openBlock\<close>, \<^verbatim>\<open>closeBlock\<close>), on the documenter, on the property wrappers
  (\<^verbatim>\<open>emitGetterDecl\<close>, \<^verbatim>\<open>emitSetterDecl\<close>, \<^verbatim>\<open>emitGetterProxy\<close>, \<^verbatim>\<open>emitSetterProxy\<close>) and on
  the runtime call emitters (\<^verbatim>\<open>ClassConstructor\<close>, \<^verbatim>\<open>MethodCall\<close>, \<^verbatim>\<open>StaticGetProperty\<close>,
  \<^verbatim>\<open>StaticSetProperty\<close>), in the order in which they are made.
\<close>

datatype Emitted =
    Line string
  | OpenBlock string
  | CloseBlock
  | Documenter Docs
  | GetterDecl Property
  | SetterDecl Property
  | GetterProxy Property
  | SetterProxy Property
  | ClassConstructorEmit GoClassConstructor
  | MethodCallEmit Method
  | StaticGetPropertyEmit Property
  | StaticSetPropertyEmit Property

fun join :: "string \<Rightarrow> string list \<Rightarrow> string" where
  "join sep [] = []"
| "join sep [x] = x"
| "join sep (x # y # ys) = x @ sep @ join sep (y # ys)"

subsection \<open>ClassMethod and StaticMethod\<close>

definition ClassMethod_returnType :: "'k Externals \<Rightarrow> GoClass \<Rightarrow> Method \<Rightarrow> string" where
  "ClassMethod_returnType env parent m =
     (case Method.reference m of
        Some r \<Rightarrow> scopedInterfaceName env (ref r) (pkg parent)
      | None \<Rightarrow> toString m)"

definition returnTypeString :: "'k Externals \<Rightarrow> GoClass \<Rightarrow> Method \<Rightarrow> string" where
  "returnTypeString env parent m =
     (if (case Method.reference m of Some r \<Rightarrow> void r | None \<Rightarrow> False)
      then ''''
      else '' '' @ ClassMethod_returnType env parent m)"

definition instanceArg :: "'k Externals \<Rightarrow> GoClass \<Rightarrow> string" where
  "instanceArg env parent = toLowerCase env (take 1 (GoType.name parent))"

definition ClassMethod_emit :: "'k Externals \<Rightarrow> GoClass \<Rightarrow> Method \<Rightarrow> Emitted list" where
  "ClassMethod_emit env parent m =
     [ Documenter (Member.docs m),
       OpenBlock (''func ('' @ instanceArg env parent @ '' *'' @ proxyName parent @ '') ''
                  @ Member.name m @ ''('' @ paramString m @ '')'' @ returnTypeString env parent m),
       MethodCallEmit m,
       CloseBlock,
       Line '''' ]"

definition ClassMethod_emitDecl :: "'k Externals \<Rightarrow> GoClass \<Rightarrow> Method \<Rightarrow> Emitted list" where
  "ClassMethod_emitDecl env parent m =
     [ Line (Member.name m @ ''('' @ paramString m @ '')'' @ returnTypeString env parent m) ]"

definition StaticMethod_emit :: "'k Externals \<Rightarrow> GoClass \<Rightarrow> Method \<Rightarrow> Emitted list" where
  "StaticMethod_emit env parent m =
     [ Documenter (Member.docs m),
       OpenBlock (''func '' @ GoType.name parent @ ''_'' @ Member.name m
                  @ ''('' @ paramString m @ '')'' @ returnTypeString env parent m),
       MethodCallEmit m,
       CloseBlock,
       Line '''' ]"

subsection \<open>GoClassConstructor.emit\<close>

definition GoClassConstructor_emit ::
  "'k Externals \<Rightarrow> GoClass \<Rightarrow> GoClassConstructor \<Rightarrow> Emitted list" where
  "GoClassConstructor_emit env parent k =
     (let constr = ''New'' @ GoType.name parent;
          paramString =
            (if length (GoClassConstructor.parameters k) = 0
             then ''''
             else join '', '' (map (paramToString env) (GoClassConstructor.parameters k)))
      in (case summary (Initializer.docs (GoClassConstructor.type k)) of
            None \<Rightarrow> []
          | Some s \<Rightarrow>
              (if s = '''' then []
               else [Line (''// '' @ docstring (Initializer.docs (GoClassConstructor.type k)))]))
         @ [ OpenBlock (''func '' @ constr @ ''('' @ paramString @ '') '' @ GoType.name parent),
             ClassConstructorEmit k,
             CloseBlock,
             Line '''' ])"

subsection \<open>GoClass: the emitters\<close>

text \<open>
  Within one emitter a getter that is read again returns the value it memoised at the
  first read (lemmas \<open>extends_again\<close> and \<open>implements_again\<close> below); the model reads
  each getter once per emitter and passes the object on.
\<close>

definition embedName :: "'k Externals \<Rightarrow> GoClass \<Rightarrow> Type GoType \<Rightarrow> string" where
  "embedName env this g =
     (if pkg g = pkg this
      then proxyName g
      else scopedInterfaceName env (Type.reference (GoType.type g)) (pkg this))"

definition emitInterface :: "('k::linorder) Externals \<Rightarrow> GoClass \<Rightarrow> Emitted list \<times> GoClass" where
  "emitInterface env this0 =
     (let (ext, this1) = extends env this0;
          (ifaces, this2) = implements env this1
      in ([ Documenter (Type.docs (GoType.type this0)),
            OpenBlock (''type '' @ GoType.name this0 @ '' interface'') ]
          @ (case ext of
               Some e \<Rightarrow> [Line (scopedInterfaceName env (Type.reference (GoType.type e)) (pkg this0))]
             | None \<Rightarrow> [])
          @ map (\<lambda>iface. Line (scopedInterfaceName env (Type.reference (GoType.type iface)) (pkg this0)))
              ifaces
          @ concat (map (\<lambda>property. [GetterDecl property, SetterDecl property]) (properties this0))
          @ concat (map (ClassMethod_emitDecl env this0) (methods this0))
          @ [ CloseBlock, Line '''' ],
          this2))"

definition emitGetters :: "GoClass \<Rightarrow> Emitted list" where
  "emitGetters this =
     (if length (properties this) = 0 then []
      else map GetterProxy (properties this)
           @ map GetterProxy (case reimplementedProperties this of Some ps \<Rightarrow> ps | None \<Rightarrow> [])
           @ [ Line '''' ])"

definition emitStruct :: "('k::linorder) Externals \<Rightarrow> GoClass \<Rightarrow> Emitted list \<times> GoClass" where
  "emitStruct env this0 =
     (let (ext, this1) = extends env this0;
          (ifaces, this2) = implements env this1
      in ([ Line (''// The jsii proxy struct for '' @ GoType.name this0),
            OpenBlock (''type '' @ proxyName this0 @ '' struct'') ]
          @ (if ext = None \<and> length ifaces = 0
             then [ Line ''_ byte // padding'' ]
             else (case ext of
                     Some e \<Rightarrow> [Line (embedName env this0 e @ '' // extends '' @ GoType.fqn e)]
                   | None \<Rightarrow> [])
                  @ map (\<lambda>iface. Line (embedName env this0 iface @ '' // implements '' @ GoType.fqn iface))
                      ifaces)
          @ [ CloseBlock, Line '''' ],
          this2))"

definition emitStaticProperty :: "'k Externals \<Rightarrow> GoClass \<Rightarrow> Property \<Rightarrow> Emitted list" where
  "emitStaticProperty env this prop =
     (let propertyName = toPascalCase env (Member.name prop);
          name = GoType.name this @ ''_'' @ propertyName
      in [ OpenBlock (''func '' @ name @ ''() '' @ returnType prop),
           StaticGetPropertyEmit prop,
           CloseBlock,
           Line '''' ]
         @ (if \<not> immutable prop
            then (let name = GoType.name this @ ''_Set'' @ propertyName
                  in [ OpenBlock (''func '' @ name @ ''(val '' @ returnType prop @ '')''),
                       StaticSetPropertyEmit prop,
                       CloseBlock,
                       Line '''' ])
            else []))"

definition emitSetters :: "GoClass \<Rightarrow> Emitted list" where
  "emitSetters this =
     map SetterProxy (properties this)
     @ map SetterProxy (case reimplementedProperties this of Some ps \<Rightarrow> ps | None \<Rightarrow> [])"

definition emit :: "('k::linorder) Externals \<Rightarrow> GoClass \<Rightarrow> Emitted list \<times> GoClass" where
  "emit env this0 =
     (let (iface, this1) = emitInterface env this0;
          (struct, this2) = emitStruct env this1
      in (iface
          @ struct
          @ emitGetters this2
          @ (case GoClass.initializer this2 of
               Some k \<Rightarrow> GoClassConstructor_emit env this2 k
             | None \<Rightarrow> [])
          @ emitSetters this2
          @ concat (map (StaticMethod_emit env this2) (staticMethods this2))
          @ concat (map (emitStaticProperty env this2) (staticProperties this2))
          @ concat (map (ClassMethod_emit env this2) (methods this2))
          @ concat (map (ClassMethod_emit env this2)
                      (case reimplementedMethods this2 of Some ms \<Rightarrow> ms | None \<Rightarrow> [])),
          this2))"

section \<open>The jsii-diff command line (bin/jsii-diff.ts)\<close>

text \<open>
  An exception is a value: a function that may throw returns \<open>Error + 'a\<close>, with the
  message of the \<^verbatim>\<open>Error\<close> on the left. What the program writes is the sequence of its
  writes to \<^verbatim>\<open>process.stderr\<close> and of its calls to the logger. The functions of
  \<^verbatim>\<open>../lib\<close>, \<^verbatim>\<open>../lib/util\<close>, \<^verbatim>\<open>fs-extra\<close>, \<^verbatim>\<open>jsii-spec\<close> and \<^verbatim>\<open>jsii-reflect\<close>
  are parameters; \<open>readAssemblyName f\<close> is the \<^verbatim>\<open>name\<close> of
  \<^verbatim>\<open>spec.validateAssembly(await fs.readJSON(f))\<close>, and \<open>loadFromFilesystem\<close> stands for
  the function of that name, whose branches all end in the type system's loader.
\<close>

type_synonym Error = string
type_synonym DownloadFailure = string

record Assembly =
  name :: string
  version :: string

record Mismatches =
  count :: nat
  messages :: "string list"

datatype 'a DownloadResult = Downloaded 'a | DownloadFailed DownloadFailure

datatype LoadAssemblyResult =
    LoadSuccess string string Assembly
  | LoadFailure string string DownloadFailure

datatype Output = StderrWrite string | LogDebug string | LogInfo string | ConfigureLog4js string

record Argv =
  original :: string
  updated :: string
  default_stability :: string
  verbose :: nat

record DiffEnv =
  pathExists :: "string \<Rightarrow> bool"
  readAssemblyName :: "string \<Rightarrow> Error + string"
  downloadNpmPackage :: "string \<Rightarrow> Error + Assembly DownloadResult"
  loadFromFilesystem :: "string \<Rightarrow> Error + Assembly"
  compareAssemblies :: "Assembly \<Rightarrow> Assembly \<Rightarrow> bool \<Rightarrow> Error + Mismatches"
  showDownloadFailure :: "DownloadFailure \<Rightarrow> string"

fun split :: "char \<Rightarrow> string \<Rightarrow> string list" where
  "split sep [] = [[]]"
| "split sep (c # cs) =
     (if c = sep then [] # split sep cs
      else (case split sep cs of
              l # ls \<Rightarrow> (c # l) # ls
            | [] \<Rightarrow> [[c]]))"

fun showNat :: "nat \<Rightarrow> string" where
  "showNat n =
     (if n < 10 then [char_of (48 + n)]
      else showNat (n div 10) @ [char_of (48 + n mod 10)])"

declare showNat.simps [simp del]

definition newline :: string where
  "newline = [CHR 0x0A]"

text \<open>
  \<^verbatim>\<open>NPM_REGEX = /^npm:(\/\/)?/\<close>: \<open>matchNpm\<close> is \<^verbatim>\<open>requested.match(NPM_REGEX)\<close> and
  \<open>replaceNpm\<close> is \<^verbatim>\<open>requested.replace(NPM_REGEX, '')\<close> on a string that matches.
\<close>

definition matchNpm :: "string \<Rightarrow> bool" where
  "matchNpm requested = (take 4 requested = ''npm:'')"

definition replaceNpm :: "string \<Rightarrow> string" where
  "replaceNpm requested =
     (let rest = drop 4 requested
      in if take 2 rest = ''//'' then drop 2 rest else rest)"

definition loadPackageNameFromAssembly :: "DiffEnv \<Rightarrow> Error + string" where
  "loadPackageNameFromAssembly env =
     (let JSII_ASSEMBLY_FILE = ''.jsii''
      in if \<not> pathExists env JSII_ASSEMBLY_FILE
         then Inl (''No NPM package name given and no '' @ JSII_ASSEMBLY_FILE
                   @ '' file in the current directory. Please specify a package name.'')
         else (case readAssemblyName env JSII_ASSEMBLY_FILE of
                 Inl e \<Rightarrow> Inl e
               | Inr n \<Rightarrow>
                   if n = '''' then Inl (''Could not find package in '' @ JSII_ASSEMBLY_FILE)
                   else Inr n))"

text \<open>
  The body of the \<^verbatim>\<open>try\<close> block of \<^verbatim>\<open>loadAssembly\<close>: it returns the value of
  \<^verbatim>\<open>resolved\<close> at the moment it finishes, with the result or the exception.
\<close>

definition loadAssembly_try :: "DiffEnv \<Rightarrow> string \<Rightarrow> string \<times> (Error + LoadAssemblyResult)" where
  "loadAssembly_try env requested =
     (let resolved = requested
      in if matchNpm requested
         then (case (let pkg' = replaceNpm requested
                     in if pkg' = '''' then loadPackageNameFromAssembly env else Inr pkg') of
                 Inl e \<Rightarrow> (resolved, Inl e)
               | Inr pkg' \<Rightarrow>
                   (let resolved = ''npm://'' @ pkg';
                        resolved = (if CHR ''@'' \<notin> set (drop 1 pkg') then resolved @ ''@latest''
                                    else resolved)
                    in (case downloadNpmPackage env pkg' of
                          Inl e \<Rightarrow> (resolved, Inl e)
                        | Inr (Downloaded result) \<Rightarrow>
                            (resolved, Inr (LoadSuccess requested resolved result))
                        | Inr (DownloadFailed reason) \<Rightarrow>
                            (resolved, Inr (LoadFailure requested resolved reason)))))
         else (case loadFromFilesystem env requested of
                 Inl e \<Rightarrow> (resolved, Inl e)
               | Inr a \<Rightarrow> (resolved, Inr (LoadSuccess requested resolved a))))"

definition loadAssembly :: "DiffEnv \<Rightarrow> string \<Rightarrow> Output list \<times> (Error + LoadAssemblyResult)" where
  "loadAssembly env requested =
     (case loadAssembly_try env requested of
        (resolved, Inr r) \<Rightarrow> ([], Inr r)
      | (resolved, Inl message) \<Rightarrow>
          (let maxLines = 3;
               messageWithContext = ''Error loading assembly '' @ [CHR 0x27] @ resolved @ [CHR 0x27]
                                    @ '': '' @ message;
               errorLines = split (CHR 0x0A) messageWithContext
           in if length errorLines < maxLines then ([], Inl messageWithContext)
              else (map LogInfo errorLines,
                    Inl (join newline (take maxLines errorLines @ [''...''])))))"

definition logLevel :: "nat \<Rightarrow> string" where
  "logLevel verbosity =
     (if verbosity = 0 then ''WARN''
      else if verbosity = 1 then ''INFO''
      else if verbosity = 2 then ''DEBUG''
      else if verbosity = 3 then ''TRACE''
      else ''ALL'')"

definition report :: "Assembly \<Rightarrow> Assembly \<Rightarrow> Mismatches \<Rightarrow> Output list" where
  "report orig upd mismatches =
     [ StderrWrite (''Original assembly: '' @ Assembly.name orig @ ''@'' @ version orig @ newline),
       StderrWrite (''Updated assembly:  '' @ Assembly.name upd @ ''@'' @ version upd @ newline),
       StderrWrite (''API elements with incompatible changes:'' @ newline) ]
     @ map (\<lambda>msg. StderrWrite (''- '' @ msg @ newline)) (messages mismatches)"

text \<open>
  \<open>main\<close> after the command line has been parsed into \<open>argv\<close>. Its result is what was
  written, with the number the promise resolves to or the exception it rejects with
  (the caller then exits with code 100).
\<close>

definition main :: "DiffEnv \<Rightarrow> Argv \<Rightarrow> Output list \<times> (Error + nat)" where
  "main env argv =
     (let out0 = [ ConfigureLog4js (logLevel (verbose argv)),
                   LogDebug (''Loading original assembly from '' @ original argv) ];
          (log1, loadOriginal) = loadAssembly env (original argv)
      in case loadOriginal of
           Inl e \<Rightarrow> (out0 @ log1, Inl e)
         | Inr (LoadFailure req resolved reason) \<Rightarrow>
             (out0 @ log1
              @ [ StderrWrite (''Could not load '' @ [CHR 0x27] @ resolved @ [CHR 0x27] @ '': ''
                               @ showDownloadFailure env reason @ ''. Skipping analysis'' @ newline) ],
              Inr 0)
         | Inr (LoadSuccess req resolved orig) \<Rightarrow>
             (let out1 = out0 @ log1 @ [ LogDebug (''Loading updated assembly from '' @ updated argv) ];
                  (log2, loadUpdated) = loadAssembly env (updated argv)
              in case loadUpdated of
                   Inl e \<Rightarrow> (out1 @ log2, Inl e)
                 | Inr (LoadFailure req' resolved' reason') \<Rightarrow>
                     (out1 @ log2
                      @ [ StderrWrite (''Could not load '' @ [CHR 0x27] @ resolved' @ [CHR 0x27] @ '': ''
                                       @ showDownloadFailure env reason' @ ''. Skipping analysis''
                                       @ newline) ],
                      Inr 0)
                 | Inr (LoadSuccess req' resolved' upd) \<Rightarrow>
                     (let out2 = out1 @ log2
                            @ (if Assembly.name orig \<noteq> Assembly.name upd
                               then [ StderrWrite (''Look like different assemblies: '' @ [CHR 0x27]
                                        @ Assembly.name orig @ [CHR 0x27] @ '' vs '' @ [CHR 0x27]
                                        @ Assembly.name upd @ [CHR 0x27]
                                        @ ''. Comparing is probably pointless...'' @ newline) ]
                               else [])
                            @ [ LogInfo ''Starting analysis'' ]
                      in case compareAssemblies env orig upd (default_stability argv = ''experimental'') of
                           Inl e \<Rightarrow> (out2, Inl e)
                         | Inr mismatches \<Rightarrow>
                             (let out3 = out2 @ [ LogInfo (''Found '' @ showNat (count mismatches) @ '' issues'') ]
                              in if count mismatches > 0
                                 then (out3 @ report orig upd mismatches, Inr 1)
                                 else (out3, Inr 0)))))"

section \<open>Example classes\<close>

text \<open>
  The classes of the scenarios. Assembly \<open>A\<close> has the class \<open>Base\<close> and the interface
  \<open>Printable\<close>, assembly \<open>B\<close> the class \<open>Engine\<close> and the interface \<open>Mixin\<close>.
  \<^item> \<open>Widget\<close> (assembly \<open>A\<close>) extends \<open>Base\<close> and implements \<open>Mixin\<close> and \<open>Printable\<close>,
    declared in this order.
  \<^item> \<open>Gadget\<close> (assembly \<open>A\<close>) extends \<open>Engine\<close> and implements \<open>Printable\<close>; it declares
    \<open>Start\<close> again and has no property of its own.
  \<^item> \<open>Duo\<close> (assembly \<open>A\<close>) has no base class and implements \<open>Mixin\<close> and \<open>Printable\<close>.
  \<^item> \<open>Point\<close> (assembly \<open>A\<close>) implements \<open>Printable\<close> only; \<open>Plain\<close> has no ancestor.
  Names are collated by code point.
\<close>

definition noDocs :: Docs where
  "noDocs = \<lparr> summary = None, docstring = '''' \<rparr>"

definition mkType :: "string \<Rightarrow> string \<Rightarrow> Type" where
  "mkType asm f = \<lparr> Type.fqn = f, assembly = asm, Type.reference = f, Type.docs = noDocs \<rparr>"

definition mkGoType :: "string \<Rightarrow> string \<Rightarrow> string \<Rightarrow> Type GoType" where
  "mkGoType asm f n =
     \<lparr> pkg = asm, GoType.type = mkType asm f, GoType.name = n,
       proxyName = ''jsiiProxy_'' @ n, GoType.fqn = f \<rparr>"

definition mkMethod :: "string \<Rightarrow> bool \<Rightarrow> string \<Rightarrow> Method" where
  "mkMethod n s d =
     \<lparr> Member.name = n, static = s, definingType = d, Member.docs = noDocs,
       Method.reference = None, paramString = '''', toString = ''string'' \<rparr>"

definition mkProperty :: "string \<Rightarrow> bool \<Rightarrow> string \<Rightarrow> bool \<Rightarrow> Property" where
  "mkProperty n s d i =
     \<lparr> Member.name = n, static = s, definingType = d, Member.docs = noDocs,
       immutable = i, returnType = ''string'' \<rparr>"

definition exampleEnv :: "nat list Externals" where
  "exampleEnv =
     \<lparr> collate = map of_char,
       findType = (\<lambda>f. if f = ''A.Base'' then mkGoType ''A'' ''A.Base'' ''Base''
                        else if f = ''B.Mixin'' then mkGoType ''B'' ''B.Mixin'' ''Mixin''
                        else if f = ''B.Engine'' then mkGoType ''B'' ''B.Engine'' ''Engine''
                        else mkGoType ''A'' ''A.Printable'' ''Printable''),
       scopedInterfaceName = (\<lambda>r p. r),
       toPascalCase = (\<lambda>s. s),
       toLowerCase = (\<lambda>s. s),
       paramToString = (\<lambda>p. p) \<rparr>"

definition mkSuper :: "string \<Rightarrow> ClassType \<Rightarrow> ClassType GoType" where
  "mkSuper n ty =
     \<lparr> pkg = assembly ty, GoType.type = ty, GoType.name = n,
       proxyName = ''jsiiProxy_'' @ n, GoType.fqn = Type.fqn ty \<rparr>"

definition Zoom :: Method where "Zoom = mkMethod ''Zoom'' False ''A.Base''"
definition Label :: Property where "Label = mkProperty ''Label'' False ''A.Base'' False"

definition BaseDecl :: ClassDecl where
  "BaseDecl =
     \<lparr> Type.fqn = ''A.Base'', assembly = ''A'', Type.reference = ''A.Base'', Type.docs = noDocs,
       interfaces = [],
       declaredMethods = [Zoom],
       declaredProperties = [Label] \<rparr>"

definition Stop :: Method where "Stop = mkMethod ''Stop'' False ''B.Engine''"
definition Start :: Method where "Start = mkMethod ''Start'' False ''B.Engine''"
definition Alert :: Method where "Alert = mkMethod ''Alert'' False ''B.Engine''"
definition Power :: Property where "Power = mkProperty ''Power'' False ''B.Engine'' False"

definition EngineDecl :: ClassDecl where
  "EngineDecl =
     \<lparr> Type.fqn = ''B.Engine'', assembly = ''B'', Type.reference = ''B.Engine'', Type.docs = noDocs,
       interfaces = [],
       declaredMethods = [Stop, Start, Alert],
       declaredProperties = [Power] \<rparr>"

definition Render :: Method where "Render = mkMethod ''Render'' False ''A.Widget''"
definition Create :: Method where "Create = mkMethod ''Create'' True ''A.Widget''"
definition Instances :: Property where "Instances = mkProperty ''Instances'' True ''A.Widget'' False"

definition WidgetType :: ClassType where
  "WidgetType =
     \<lparr> Type.fqn = ''A.Widget'', assembly = ''A'', Type.reference = ''A.Widget'', Type.docs = noDocs,
       interfaces = [mkType ''B'' ''B.Mixin'', mkType ''A'' ''A.Printable''],
       declaredMethods = [Render, Create],
       declaredProperties = [Instances],
       bases = [BaseDecl],
       ClassType.initializer = Some \<lparr> Initializer.parameters = [''label string''],
                                      Initializer.docs = noDocs \<rparr> \<rparr>"

definition Widget :: GoClass where
  "Widget = GoClass_new exampleEnv (mkSuper ''Widget'' WidgetType)"

definition Restart :: Method where "Restart = mkMethod ''Start'' False ''A.Gadget''"

definition GadgetType :: ClassType where
  "GadgetType =
     \<lparr> Type.fqn = ''A.Gadget'', assembly = ''A'', Type.reference = ''A.Gadget'', Type.docs = noDocs,
       interfaces = [mkType ''A'' ''A.Printable''],
       declaredMethods = [Restart],
       declaredProperties = [],
       bases = [EngineDecl],
       ClassType.initializer = None \<rparr>"

definition Gadget :: GoClass where
  "Gadget = GoClass_new exampleEnv (mkSuper ''Gadget'' GadgetType)"



definition X :: Property where "X = mkProperty ''X'' False ''A.Point'' False"
definition Norm :: Method where "Norm = mkMethod ''Norm'' False ''A.Point''"

definition PointType :: ClassType where
  "PointType =
     \<lparr> Type.fqn = ''A.Point'', assembly = ''A'', Type.reference = ''A.Point'', Type.docs = noDocs,
       interfaces = [mkType ''A'' ''A.Printable''],
       declaredMethods = [Norm],
       declaredProperties = [X],
       bases = [],
       ClassType.initializer = None \<rparr>"

definition Point :: GoClass where
  "Point = GoClass_new exampleEnv (mkSuper ''Point'' PointType)"

definition PlainType :: ClassType where
  "PlainType =
     \<lparr> Type.fqn = ''A.Plain'', assembly = ''A'', Type.reference = ''A.Plain'', Type.docs = noDocs,
       interfaces = [],
       declaredMethods = [],
       declaredProperties = [],
       bases = [],
       ClassType.initializer = None \<rparr>"

definition Plain :: GoClass where
  "Plain = GoClass_new exampleEnv (mkSuper ''Plain'' PlainType)"

definition asmV1 :: Assembly where
  "asmV1 = \<lparr> Assembly.name = ''lib'', version = ''1.0.0'' \<rparr>"

definition asmV2 :: Assembly where
  "asmV2 = \<lparr> Assembly.name = ''lib'', version = ''2.0.0'' \<rparr>"

text \<open>
  An environment for \<open>main\<close>: the registry has \<open>lib@1.0.0\<close> only, the current directory
  holds version 2.0.0 and the directory \<open>old\<close> version 1.0.0; two assemblies are
  incompatible when their versions differ.
\<close>

definition exampleDiffEnv :: DiffEnv where
  "exampleDiffEnv =
     \<lparr> pathExists = (\<lambda>f. False),
       readAssemblyName = (\<lambda>f. Inl ''ENOENT''),
       downloadNpmPackage = (\<lambda>p. if p = ''lib@1.0.0'' then Inr (Downloaded asmV1)
                                  else Inr (DownloadFailed ''404 Not Found'')),
       loadFromFilesystem = (\<lambda>p. if p = ''.'' then Inr asmV2
                                  else if p = ''old'' then Inr asmV1
                                  else Inl ''ENOENT''),
       compareAssemblies = (\<lambda>a b e. Inr (if version a = version b
                                         then \<lparr> count = 0, messages = [] \<rparr>
                                         else \<lparr> count = 1, messages = [''removed''] \<rparr>)),
       showDownloadFailure = (\<lambda>r. r) \<rparr>"

definition argvOriginalGone :: Argv where
  "argvOriginalGone =
     \<lparr> original = ''npm:gone@1.0.0'', updated = ''.'', default_stability = ''stable'', verbose = 0 \<rparr>"

definition argvUpdatedGone :: Argv where
  "argvUpdatedGone =
     \<lparr> original = ''old'', updated = ''npm://gone'', default_stability = ''stable'', verbose = 0 \<rparr>"

definition argvBreaking :: Argv where
  "argvBreaking =
     \<lparr> original = ''npm:lib@1.0.0'', updated = ''.'', default_stability = ''stable'', verbose = 0 \<rparr>"

definition argvSame :: Argv where
  "argvSame =
     \<lparr> original = ''old'', updated = ''old'', default_stability = ''stable'', verbose = 0 \<rparr>"

text \<open>A second registry, in which every name resolves to one unrelated type.\<close>

definition otherEnv :: "nat list Externals" where
  "otherEnv = exampleEnv\<lparr> findType := (\<lambda>f. mkGoType ''Z'' ''Z.Other'' ''Other'') \<rparr>"

section \<open>The statements of the specification that the code is compared with\<close>





text \<open>
  Following the specification's words (section 4.4), not the code: the proxy structure
  embeds the base class first, then the interfaces in declared order.
\<close>

definition spec_emitStruct :: "'k Externals \<Rightarrow> GoClass \<Rightarrow> Emitted list" where
  "spec_emitStruct env this =
     [ Line (''// The jsii proxy struct for '' @ GoType.name this),
       OpenBlock (''type '' @ proxyName this @ '' struct'') ]
     @ (case base (GoType.type this) of
          Some b \<Rightarrow> [Line (embedName env this (findType env (Type.fqn b)) @ '' // extends ''
                           @ GoType.fqn (findType env (Type.fqn b)))]
        | None \<Rightarrow> [])
     @ map (\<lambda>iface. Line (embedName env this (findType env (Type.fqn iface)) @ '' // implements ''
                          @ GoType.fqn (findType env (Type.fqn iface))))
         (interfaces (GoType.type this))
     @ [ CloseBlock, Line '''' ]"

text \<open>
  The headers of the blocks that an output opens, in order. A free function is one
  block.
\<close>

fun blocks :: "Emitted list \<Rightarrow> string list" where
  "blocks [] = []"
| "blocks (OpenBlock h # es) = h # blocks es"
| "blocks (e # es) = blocks es"

section \<open>Properties of the projection\<close>

subsection \<open>The getters and the emitters on an object whose caches change\<close>

lemma extends_again:
  "extends env this = (v, this') \<Longrightarrow> extends env2 this' = (v, this')"
  by (auto simp: extends_def Let_def split: if_splits option.splits)

lemma implements_again:
  "implements env this = (v, this') \<Longrightarrow> implements env2 this' = (v, this')"
  by (auto simp: implements_def Let_def split: option.splits)

lemma extends_fresh:
  "extends' this = None \<Longrightarrow>
   extends env this =
     (map_option (\<lambda>b. findType env (Type.fqn b)) (base (GoType.type this)),
      this\<lparr> extends' := Some (map_option (\<lambda>b. findType env (Type.fqn b)) (base (GoType.type this))) \<rparr>)"
  by (auto simp: extends_def Let_def split: option.splits)

lemma implements_fresh:
  "implements' this = None \<Longrightarrow>
   implements env this =
     (sort_key (\<lambda>g. collate env (GoType.fqn g))
        (map (\<lambda>iface. findType env (Type.fqn iface)) (interfaces (GoType.type this))),
      this\<lparr> implements' := Some (sort_key (\<lambda>g. collate env (GoType.fqn g))
        (map (\<lambda>iface. findType env (Type.fqn iface)) (interfaces (GoType.type this)))) \<rparr>)"
  by (simp add: implements_def Let_def)

lemma emitStruct_after_emitInterface:
  "fst (emitStruct env (snd (emitInterface env this))) = fst (emitStruct env this)"
  by (cases "extends' this"; cases "implements' this")
     (auto simp: emitStruct_def emitInterface_def extends_def implements_def Let_def embedName_def split_def split: option.splits)

lemma snd_emitStruct_after_emitInterface:
  "snd (emitStruct env (snd (emitInterface env this))) = snd (emitInterface env this)"
  by (cases "extends' this"; cases "implements' this")
     (auto simp: emitStruct_def emitInterface_def extends_def implements_def Let_def embedName_def split_def split: option.splits)



lemma emitInterface_fields:
  "pkg (snd (emitInterface env this)) = pkg this"
  "GoType.name (snd (emitInterface env this)) = GoType.name this"
  "proxyName (snd (emitInterface env this)) = proxyName this"
  "methods (snd (emitInterface env this)) = methods this"
  "staticMethods (snd (emitInterface env this)) = staticMethods this"
  "properties (snd (emitInterface env this)) = properties this"
  "staticProperties (snd (emitInterface env this)) = staticProperties this"
  "reimplementedMethods (snd (emitInterface env this)) = reimplementedMethods this"
  "reimplementedProperties (snd (emitInterface env this)) = reimplementedProperties this"
  "GoClass.initializer (snd (emitInterface env this)) = GoClass.initializer this"
  by (cases "extends' this"; cases "implements' this";
      simp add: emitInterface_def extends_def implements_def Let_def split_def)+

lemma emitters_cong:
  assumes "pkg a = pkg b" "GoType.name a = GoType.name b" "proxyName a = proxyName b"
    "properties a = properties b" "reimplementedProperties a = reimplementedProperties b"
  shows "emitGetters a = emitGetters b"
    and "emitSetters a = emitSetters b"
    and "GoClassConstructor_emit env a = GoClassConstructor_emit env b"
    and "StaticMethod_emit env a = StaticMethod_emit env b"
    and "emitStaticProperty env a = emitStaticProperty env b"
    and "ClassMethod_emit env a = ClassMethod_emit env b"
    and "ClassMethod_emitDecl env a = ClassMethod_emitDecl env b"
  using assms
  by (auto simp: emitGetters_def emitSetters_def GoClassConstructor_emit_def StaticMethod_emit_def
        emitStaticProperty_def ClassMethod_emit_def ClassMethod_emitDecl_def returnTypeString_def
        ClassMethod_returnType_def instanceArg_def Let_def fun_eq_iff split: option.splits)

lemma emit_decomp:
  "fst (emit env this) =
     fst (emitInterface env this)
     @ fst (emitStruct env this)
     @ emitGetters this
     @ (case GoClass.initializer this of
          Some k \<Rightarrow> GoClassConstructor_emit env this k
        | None \<Rightarrow> [])
     @ emitSetters this
     @ concat (map (StaticMethod_emit env this) (staticMethods this))
     @ concat (map (emitStaticProperty env this) (staticProperties this))
     @ concat (map (ClassMethod_emit env this) (methods this))
     @ concat (map (ClassMethod_emit env this)
                 (case reimplementedMethods this of Some ms \<Rightarrow> ms | None \<Rightarrow> []))"
proof -
  let ?t = "snd (emitInterface env this)"
  have s2: "snd (emitStruct env ?t) = ?t"
    by (rule snd_emitStruct_after_emitInterface)
  note c = emitters_cong [of ?t this, OF emitInterface_fields(1) emitInterface_fields(2)
      emitInterface_fields(3) emitInterface_fields(6) emitInterface_fields(9)]
  show ?thesis
    unfolding emit_def Let_def split_def fst_conv s2 c emitInterface_fields
      emitStruct_after_emitInterface
    by (rule refl)
qed

lemma snd_emit: "snd (emit env this) = snd (emitInterface env this)"
  by (simp add: emit_def Let_def split_def snd_emitStruct_after_emitInterface)

lemma sort_key_eq_Nil: "sort_key f xs = [] \<longleftrightarrow> xs = []"
  by (metis length_sort length_0_conv)

lemma byName_findType:
  "byName (env\<lparr> findType := r \<rparr>) = byName env"
  by (simp add: fun_eq_iff byName_def)





lemma loadAssembly_LoadFailure_iff:
  "snd (loadAssembly env requested) = Inr (LoadFailure q rs reason) \<longleftrightarrow>
     matchNpm requested \<and> q = requested \<and>
     (\<exists>pkg'. (if replaceNpm requested = '''' then loadPackageNameFromAssembly env
              else Inr (replaceNpm requested)) = Inr pkg' \<and>
        downloadNpmPackage env pkg' = Inr (DownloadFailed reason) \<and>
        rs = ''npm://'' @ pkg' @ (if CHR ''@'' \<notin> set (drop 1 pkg') then ''@latest'' else ''''))"
  by (auto simp: loadAssembly_def loadAssembly_try_def Let_def
        split: sum.splits DownloadResult.splits if_splits prod.splits)

subsection \<open>The members that jsii-reflect collects\<close>

lemma set_key_keys: "x \<in> fst ` set (set_key k v al) \<longleftrightarrow> x = k \<or> x \<in> fst ` set al"
proof (induction al)
  case Nil
  then show ?case by simp
next
  case (Cons kv al)
  obtain k' v' where kv: "kv = (k', v')" by (cases kv)
  show ?case
  proof (cases "k' = k")
    case True
    then show ?thesis unfolding kv by auto
  next
    case False
    have "x \<in> fst ` set ((k', v') # set_key k v al) \<longleftrightarrow> x = k' \<or> x \<in> fst ` set (set_key k v al)"
      by auto
    then show ?thesis
      unfolding kv using False Cons.IH by auto
  qed
qed

lemma set_key_distinct:
  "distinct (map fst al) \<Longrightarrow> distinct (map fst (set_key k v al))"
proof (induction al)
  case Nil
  then show ?case by simp
next
  case (Cons kv al)
  obtain k' v' where kv: "kv = (k', v')" by (cases kv)
  have d: "distinct (map fst (set_key k v al))" and n: "k' \<notin> fst ` set al"
    using Cons unfolding kv by auto
  show ?case
  proof (cases "k' = k")
    case True
    then show ?thesis using Cons.prems unfolding kv by auto
  next
    case False
    then have "k' \<notin> fst ` set (set_key k v al)"
      using n set_key_keys [of k' k v al] by blast
    with False d show ?thesis unfolding kv by simp
  qed
qed

lemma set_key_entries:
  "kv \<in> set (set_key k v al) \<Longrightarrow> kv = (k, v) \<or> kv \<in> set al"
  by (induction al) (auto split: if_splits)

lemma fold_set_key:
  assumes "distinct (map fst acc)" and "\<forall>kv \<in> set acc. Q kv" and "\<forall>x \<in> set xs. Q (f x, g x)"
  shows "distinct (map fst (fold (\<lambda>x. set_key (f x) (g x)) xs acc)) \<and>
         (\<forall>kv \<in> set (fold (\<lambda>x. set_key (f x) (g x)) xs acc). Q kv)"
  using assms
proof (induction xs arbitrary: acc)
  case Nil
  then show ?case by simp
next
  case (Cons x xs)
  have "distinct (map fst (set_key (f x) (g x) acc))"
    using Cons.prems(1) by (rule set_key_distinct)
  moreover have "\<forall>kv \<in> set (set_key (f x) (g x) acc). Q kv"
    using Cons.prems(2,3) set_key_entries [of _ "f x" "g x" acc] by auto
  moreover have "\<forall>y \<in> set xs. Q (f y, g y)"
    using Cons.prems(3) by simp
  ultimately show ?case
    using Cons.IH [of "set_key (f x) (g x) acc"] by simp
qed

lemma indexBy_entries:
  assumes "\<forall>x \<in> set xs. Q (key x, x)"
  shows "distinct (map fst (indexBy key xs)) \<and> (\<forall>kv \<in> set (indexBy key xs). Q kv)"
  unfolding indexBy_def
  using fold_set_key [of "[]" Q xs key "\<lambda>x. x"] assms by simp

lemma assign_entries:
  assumes "distinct (map fst target)" and "\<forall>kv \<in> set target. Q kv" and "\<forall>kv \<in> set source. Q kv"
  shows "distinct (map fst (assign target source)) \<and> (\<forall>kv \<in> set (assign target source). Q kv)"
  unfolding assign_def
  using fold_set_key [of target Q source fst snd] assms by simp

lemma getMethods_entries:
  "distinct (map fst (getMethods cs)) \<and>
   (\<forall>kv \<in> set (getMethods cs).
      Member.name (snd kv) = fst kv \<and> definingType (snd kv) \<in> Type.fqn ` set cs)"
proof (induction cs)
  case Nil
  then show ?case by simp
next
  case (Cons c cs)
  let ?Q = "\<lambda>kv :: string \<times> Method.
              Member.name (snd kv) = fst kv \<and> definingType (snd kv) \<in> Type.fqn ` set (c # cs)"
  have own: "\<forall>kv \<in> set (indexBy Member.name (map (declaredBy c) (declaredMethods c))). ?Q kv"
    using indexBy_entries [of "map (declaredBy c) (declaredMethods c)" ?Q Member.name]
    by (auto simp: declaredBy_def)
  have inh: "\<forall>kv \<in> set (getMethods cs). ?Q kv"
    using Cons.IH by auto
  show ?case
    using assign_entries [of "getMethods cs" ?Q, OF _ inh own] Cons.IH by simp
qed

lemma getProperties_entries:
  "distinct (map fst (getProperties cs)) \<and>
   (\<forall>kv \<in> set (getProperties cs).
      Member.name (snd kv) = fst kv \<and> definingType (snd kv) \<in> Type.fqn ` set cs)"
proof (induction cs)
  case Nil
  then show ?case by simp
next
  case (Cons c cs)
  let ?Q = "\<lambda>kv :: string \<times> Property.
              Member.name (snd kv) = fst kv \<and> definingType (snd kv) \<in> Type.fqn ` set (c # cs)"
  have own: "\<forall>kv \<in> set (indexBy Member.name (map (declaredBy c) (declaredProperties c))). ?Q kv"
    using indexBy_entries [of "map (declaredBy c) (declaredProperties c)" ?Q Member.name]
    by (auto simp: declaredBy_def)
  have inh: "\<forall>kv \<in> set (getProperties cs). ?Q kv"
    using Cons.IH by auto
  show ?case
    using assign_entries [of "getProperties cs" ?Q, OF _ inh own] Cons.IH by simp
qed






lemma ownMethods_definingType:
  "m \<in> set (ownMethods ty) \<Longrightarrow> definingType m = Type.fqn ty"
  unfolding ownMethods_def
  using getMethods_entries [of "[ClassDecl.truncate ty]"]
  by (auto simp: ClassDecl.truncate_def)

lemma ownProperties_definingType:
  "p \<in> set (ownProperties ty) \<Longrightarrow> definingType p = Type.fqn ty"
  unfolding ownProperties_def
  using getProperties_entries [of "[ClassDecl.truncate ty]"]
  by (auto simp: ClassDecl.truncate_def)

lemma byName_collate: "byName env = (\<lambda>m. collate env (Member.name m))"
  by (simp add: fun_eq_iff byName_def)

subsection \<open>The blocks that the emitters open\<close>

lemma blocks_append: "blocks (xs @ ys) = blocks xs @ blocks ys"
  by (induction xs rule: blocks.induct) simp_all

lemma blocks_concat: "blocks (concat xss) = concat (map blocks xss)"
  by (induction xss) (simp_all add: blocks_append)

lemma blocks_lines: "blocks (map (\<lambda>x. Line (f x)) xs) = []"
  by (induction xs) simp_all

lemma blocks_no_block:
  "blocks (map GetterProxy ps) = []"
  "blocks (map SetterProxy ps) = []"
  "blocks (concat (map (\<lambda>p. [GetterDecl p, SetterDecl p]) ps)) = []"
  by (induction ps, simp_all)+

lemma concat_map_single: "concat (map (\<lambda>x. [f x]) xs) = map f xs"
  by (induction xs) simp_all

lemma blocks_emitInterface:
  "blocks (fst (emitInterface env this)) = [''type '' @ GoType.name this @ '' interface'']"
proof -
  have d: "blocks (concat (map (ClassMethod_emitDecl env this) ms)) = []" for ms
    by (induction ms) (simp_all add: ClassMethod_emitDecl_def)
  show ?thesis
    by (simp add: emitInterface_def split_def Let_def blocks_append blocks_lines blocks_no_block d
          split: option.splits)
qed

lemma blocks_emitStruct:
  "blocks (fst (emitStruct env this)) = [''type '' @ proxyName this @ '' struct'']"
  by (simp add: emitStruct_def split_def Let_def blocks_append blocks_lines blocks_no_block
        split: option.splits)

lemma blocks_members:
  "blocks (emitGetters this) = []"
  "blocks (emitSetters this) = []"
  "blocks (GoClassConstructor_emit env this k) =
     [ ''func New'' @ GoType.name this @ ''(''
       @ (if GoClassConstructor.parameters k = [] then ''''
          else join '', '' (map (paramToString env) (GoClassConstructor.parameters k)))
       @ '') '' @ GoType.name this ]"
  "blocks (StaticMethod_emit env this m) =
     [ ''func '' @ GoType.name this @ ''_'' @ Member.name m @ ''('' @ paramString m @ '')''
       @ returnTypeString env this m ]"
  "blocks (ClassMethod_emit env this m) =
     [ ''func ('' @ instanceArg env this @ '' *'' @ proxyName this @ '') '' @ Member.name m
       @ ''('' @ paramString m @ '')'' @ returnTypeString env this m ]"
  "blocks (emitStaticProperty env this p) =
     (''func '' @ GoType.name this @ ''_'' @ toPascalCase env (Member.name p) @ ''() '' @ returnType p)
     # (if immutable p then []
        else [ ''func '' @ GoType.name this @ ''_Set'' @ toPascalCase env (Member.name p)
               @ ''(val '' @ returnType p @ '')'' ])"
  by (simp_all add: emitGetters_def emitSetters_def GoClassConstructor_emit_def
        StaticMethod_emit_def ClassMethod_emit_def emitStaticProperty_def Let_def blocks_append
        blocks_no_block split: option.splits)

lemma blocks_emit:
  "blocks (fst (emit env this)) =
     [ ''type '' @ GoType.name this @ '' interface'', ''type '' @ proxyName this @ '' struct'' ]
     @ (case GoClass.initializer this of
          Some k \<Rightarrow> blocks (GoClassConstructor_emit env this k)
        | None \<Rightarrow> [])
     @ concat (map (\<lambda>m. blocks (StaticMethod_emit env this m)) (staticMethods this))
     @ concat (map (\<lambda>p. blocks (emitStaticProperty env this p)) (staticProperties this))
     @ concat (map (\<lambda>m. blocks (ClassMethod_emit env this m))
                 (methods this @ (case reimplementedMethods this of Some ms \<Rightarrow> ms | None \<Rightarrow> [])))"
  unfolding emit_decomp [of env this] blocks_append blocks_concat blocks_emitInterface
    blocks_emitStruct blocks_members(1,2) map_map comp_def
  by (simp split: option.splits)

subsection \<open>The claims\<close>






text \<open>
  C3. \<open>Gadget\<close> extends the class \<open>Engine\<close> of another assembly and implements an
  interface, so its inherited members are re-implemented; it declares no property of
  its own and inherits the property \<open>Power\<close>. \<open>emitGetters\<close> returns before it
  reaches the re-implemented properties: no getter proxy is written for \<open>Power\<close>, while
  \<open>emitSetters\<close> writes its setter proxy.
\<close>

theorem emitGetters_skips_reimplemented:
  "properties Gadget = [] \<and>
   reimplementedProperties Gadget = Some [Power] \<and>
   emitGetters Gadget = [] \<and>
   GetterProxy Power \<notin> set (fst (emit exampleEnv Gadget)) \<and>
   SetterProxy Power \<in> set (fst (emit exampleEnv Gadget))"
  by code_simp

text \<open>
  C4, as stated: the interfaces are embedded in declared order. \<open>Widget\<close> declares
  \<open>Mixin\<close> before \<open>Printable\<close>; its proxy structure embeds \<open>Printable\<close> before \<open>Mixin\<close>.
\<close>

theorem struct_order_counterexample:
  "map Type.fqn (interfaces (GoType.type Widget)) = [''B.Mixin'', ''A.Printable''] \<and>
   fst (emitStruct exampleEnv Widget) =
     [ Line ''// The jsii proxy struct for Widget'',
       OpenBlock ''type jsiiProxy_Widget struct'',
       Line ''jsiiProxy_Base // extends A.Base'',
       Line ''jsiiProxy_Printable // implements A.Printable'',
       Line ''B.Mixin // implements B.Mixin'',
       CloseBlock,
       Line '''' ] \<and>
   fst (emitStruct exampleEnv Widget) \<noteq> spec_emitStruct exampleEnv Widget"
  by code_simp

text \<open>
  C4, amended. For a class with at least one direct ancestor, the proxy structure embeds
  the base class first (if any), then the implemented interfaces sorted by
  fully-qualified name; each ancestor is embedded by its proxy structure name when it is
  in the package of the class and by its scoped interface name otherwise. \<open>emit\<close>
  writes this structure right after the interface.
\<close>

theorem struct_embeds:
  fixes env :: "('k::linorder) Externals"
  assumes "base (GoType.type super) \<noteq> None \<or> interfaces (GoType.type super) \<noteq> []"
  shows "\<exists>ifaces post.
     mset ifaces = mset (map (\<lambda>iface. findType env (Type.fqn iface)) (interfaces (GoType.type super))) \<and>
     sorted (map (\<lambda>g. collate env (GoType.fqn g)) ifaces) \<and>
     fst (emitStruct env (GoClass_new env super)) =
       [ Line (''// The jsii proxy struct for '' @ GoType.name super),
         OpenBlock (''type '' @ proxyName super @ '' struct'') ]
       @ (case base (GoType.type super) of
            Some b \<Rightarrow>
              [Line ((if pkg (findType env (Type.fqn b)) = pkg super
                      then proxyName (findType env (Type.fqn b))
                      else scopedInterfaceName env
                             (Type.reference (GoType.type (findType env (Type.fqn b)))) (pkg super))
                     @ '' // extends '' @ GoType.fqn (findType env (Type.fqn b)))]
          | None \<Rightarrow> [])
       @ map (\<lambda>g. Line ((if pkg g = pkg super
                         then proxyName g
                         else scopedInterfaceName env (Type.reference (GoType.type g)) (pkg super))
                        @ '' // implements '' @ GoType.fqn g))
           ifaces
       @ [ CloseBlock, Line '''' ] \<and>
     fst (emit env (GoClass_new env super)) =
       fst (emitInterface env (GoClass_new env super))
       @ fst (emitStruct env (GoClass_new env super))
       @ post"
proof -
  let ?ifaces = "sort_key (\<lambda>g. collate env (GoType.fqn g))
                   (map (\<lambda>iface. findType env (Type.fqn iface)) (interfaces (GoType.type super)))"
  have "fst (emitStruct env (GoClass_new env super)) =
       [ Line (''// The jsii proxy struct for '' @ GoType.name super),
         OpenBlock (''type '' @ proxyName super @ '' struct'') ]
       @ (case base (GoType.type super) of
            Some b \<Rightarrow>
              [Line ((if pkg (findType env (Type.fqn b)) = pkg super
                      then proxyName (findType env (Type.fqn b))
                      else scopedInterfaceName env
                             (Type.reference (GoType.type (findType env (Type.fqn b)))) (pkg super))
                     @ '' // extends '' @ GoType.fqn (findType env (Type.fqn b)))]
          | None \<Rightarrow> [])
       @ map (\<lambda>g. Line ((if pkg g = pkg super
                         then proxyName g
                         else scopedInterfaceName env (Type.reference (GoType.type g)) (pkg super))
                        @ '' // implements '' @ GoType.fqn g))
           ?ifaces
       @ [ CloseBlock, Line '''' ]"
    using assms
    by (auto simp: emitStruct_def extends_def implements_def GoClass_new_def Let_def embedName_def
          sort_key_eq_Nil split: option.splits)
  moreover have "mset ?ifaces = mset (map (\<lambda>iface. findType env (Type.fqn iface)) (interfaces (GoType.type super)))"
    by simp
  moreover have "sorted (map (\<lambda>g. collate env (GoType.fqn g)) ?ifaces)"
    by simp
  moreover have "\<exists>post. fst (emit env (GoClass_new env super)) =
       fst (emitInterface env (GoClass_new env super))
       @ fst (emitStruct env (GoClass_new env super))
       @ post"
    unfolding emit_decomp [of env "GoClass_new env super"] by blast
  ultimately show ?thesis by blast
qed

theorem struct_embeds_witness:
  "base (GoType.type (mkSuper ''Widget'' WidgetType)) \<noteq> None \<and>
   (\<exists>ifaces.
      mset ifaces = {# mkGoType ''B'' ''B.Mixin'' ''Mixin'', mkGoType ''A'' ''A.Printable'' ''Printable'' #} \<and>
      sorted (map (\<lambda>g. collate exampleEnv (GoType.fqn g)) ifaces) \<and>
      fst (emitStruct exampleEnv Widget) =
        [ Line ''// The jsii proxy struct for Widget'',
          OpenBlock ''type jsiiProxy_Widget struct'',
          Line ''jsiiProxy_Base // extends A.Base'' ]
        @ map (\<lambda>g. Line ((if pkg g = ''A'' then proxyName g else Type.reference (GoType.type g))
                         @ '' // implements '' @ GoType.fqn g))
            ifaces
        @ [ CloseBlock, Line '''' ])"
proof -
  let ?super = "mkSuper ''Widget'' WidgetType"
  have b: "base (GoType.type ?super) \<noteq> None"
    by (simp add: WidgetType_def mkSuper_def base_def)
  then have h: "base (GoType.type ?super) \<noteq> None \<or> interfaces (GoType.type ?super) \<noteq> []"
    by (rule disjI1)
  have f: "findType exampleEnv ''A.Base'' = mkGoType ''A'' ''A.Base'' ''Base''"
    "findType exampleEnv ''B.Mixin'' = mkGoType ''B'' ''B.Mixin'' ''Mixin''"
    "findType exampleEnv ''A.Printable'' = mkGoType ''A'' ''A.Printable'' ''Printable''"
    "scopedInterfaceName exampleEnv = (\<lambda>r p. r)"
    by (simp_all add: exampleEnv_def)
  have t: "base (GoType.type ?super) = Some BaseDecl"
    "map (\<lambda>iface. findType exampleEnv (Type.fqn iface)) (interfaces (GoType.type ?super)) =
       [mkGoType ''B'' ''B.Mixin'' ''Mixin'', mkGoType ''A'' ''A.Printable'' ''Printable'']"
    "GoType.name ?super = ''Widget''" "proxyName ?super = ''jsiiProxy_Widget''" "pkg ?super = ''A''"
    by (simp_all add: WidgetType_def mkSuper_def mkType_def base_def f)
  have g: "Type.fqn BaseDecl = ''A.Base''"
    "pkg (mkGoType ''A'' ''A.Base'' ''Base'') = ''A''"
    "proxyName (mkGoType ''A'' ''A.Base'' ''Base'') = ''jsiiProxy_Base''"
    "GoType.fqn (mkGoType ''A'' ''A.Base'' ''Base'') = ''A.Base''"
    by (simp_all add: BaseDecl_def mkGoType_def)
  from struct_embeds [of ?super exampleEnv, OF h]
  obtain ifaces post where
    m: "mset ifaces = mset (map (\<lambda>iface. findType exampleEnv (Type.fqn iface)) (interfaces (GoType.type ?super)))"
    and s: "sorted (map (\<lambda>g. collate exampleEnv (GoType.fqn g)) ifaces)"
    and e: "fst (emitStruct exampleEnv (GoClass_new exampleEnv ?super)) =
       [ Line (''// The jsii proxy struct for '' @ GoType.name ?super),
         OpenBlock (''type '' @ proxyName ?super @ '' struct'') ]
       @ (case base (GoType.type ?super) of
            Some b \<Rightarrow>
              [Line ((if pkg (findType exampleEnv (Type.fqn b)) = pkg ?super
                      then proxyName (findType exampleEnv (Type.fqn b))
                      else scopedInterfaceName exampleEnv
                             (Type.reference (GoType.type (findType exampleEnv (Type.fqn b)))) (pkg ?super))
                     @ '' // extends '' @ GoType.fqn (findType exampleEnv (Type.fqn b)))]
          | None \<Rightarrow> [])
       @ map (\<lambda>g. Line ((if pkg g = pkg ?super
                         then proxyName g
                         else scopedInterfaceName exampleEnv (Type.reference (GoType.type g)) (pkg ?super))
                        @ '' // implements '' @ GoType.fqn g))
           ifaces
       @ [ CloseBlock, Line '''' ]"
    by (elim exE conjE)
  have m': "mset ifaces = {# mkGoType ''B'' ''B.Mixin'' ''Mixin'', mkGoType ''A'' ''A.Printable'' ''Printable'' #}"
    unfolding m t by simp
  have e': "fst (emitStruct exampleEnv Widget) =
        [ Line ''// The jsii proxy struct for Widget'',
          OpenBlock ''type jsiiProxy_Widget struct'',
          Line ''jsiiProxy_Base // extends A.Base'' ]
        @ map (\<lambda>g. Line ((if pkg g = ''A'' then proxyName g else Type.reference (GoType.type g))
                         @ '' // implements '' @ GoType.fqn g))
            ifaces
        @ [ CloseBlock, Line '''' ]"
    unfolding Widget_def e t option.case g f by simp
  from b m' s e' show ?thesis by (intro conjI exI [of _ ifaces])
qed

text \<open>
  C5. For a class with neither a base class nor an implemented interface, the proxy
  structure holds exactly one field, the padding byte, between its opening and its
  closing, and \<open>emit\<close> writes this structure right after the interface.
\<close>

theorem struct_padding:
  fixes env :: "('k::linorder) Externals"
  assumes "base (GoType.type super) = None" and "interfaces (GoType.type super) = []"
  shows "fst (emitStruct env (GoClass_new env super)) =
       [ Line (''// The jsii proxy struct for '' @ GoType.name super),
         OpenBlock (''type '' @ proxyName super @ '' struct''),
         Line ''_ byte // padding'',
         CloseBlock,
         Line '''' ] \<and>
     (\<exists>post. fst (emit env (GoClass_new env super)) =
        fst (emitInterface env (GoClass_new env super))
        @ [ Line (''// The jsii proxy struct for '' @ GoType.name super),
            OpenBlock (''type '' @ proxyName super @ '' struct''),
            Line ''_ byte // padding'',
            CloseBlock,
            Line '''' ]
        @ post)"
proof -
  have s: "fst (emitStruct env (GoClass_new env super)) =
       [ Line (''// The jsii proxy struct for '' @ GoType.name super),
         OpenBlock (''type '' @ proxyName super @ '' struct''),
         Line ''_ byte // padding'',
         CloseBlock,
         Line '''' ]"
    using assms
    by (simp add: emitStruct_def extends_def implements_def GoClass_new_def Let_def)
  have "\<exists>post. fst (emit env (GoClass_new env super)) =
       fst (emitInterface env (GoClass_new env super))
       @ fst (emitStruct env (GoClass_new env super))
       @ post"
    unfolding emit_decomp [of env "GoClass_new env super"] by blast
  with s show ?thesis by simp
qed

theorem struct_padding_witness:
  "base (GoType.type (mkSuper ''Plain'' PlainType)) = None \<and>
   interfaces (GoType.type (mkSuper ''Plain'' PlainType)) = [] \<and>
   fst (emitStruct exampleEnv Plain) =
     [ Line ''// The jsii proxy struct for Plain'',
       OpenBlock ''type jsiiProxy_Plain struct'',
       Line ''_ byte // padding'',
       CloseBlock,
       Line '''' ]"
proof -
  have h: "base (GoType.type (mkSuper ''Plain'' PlainType)) = None"
    "interfaces (GoType.type (mkSuper ''Plain'' PlainType)) = []"
    by (simp_all add: PlainType_def mkSuper_def base_def)
  show ?thesis
    using struct_padding [of "mkSuper ''Plain'' PlainType" exampleEnv, OF h] h
    unfolding Plain_def by (simp add: mkSuper_def)
qed



text \<open>
  C7, as stated: every static member yields exactly one free function. The static
  property \<open>Instances\<close> of \<open>Widget\<close> is not immutable and yields two: its getter and
  its setter.
\<close>

theorem static_property_counterexample:
  "static Instances \<and> Instances \<in> set (ownProperties WidgetType) \<and>
   blocks (emitStaticProperty exampleEnv Widget Instances) =
     [ ''func Widget_Instances() string'', ''func Widget_SetInstances(val string)'' ]"
  by code_simp

text \<open>
  C7, amended. The interface of a class declares, after its embedded ancestors, the
  getter and the setter of each non-static property that the class declares and each
  non-static method that the class declares, sorted by name, and nothing else: no static
  member is declared in it. \<open>emit\<close> opens these blocks and no others: the interface,
  the proxy structure, the construction function if there is one, then for each static
  method of the class, sorted by name, the one free function \<open><class>_<method>\<close>, then
  for each static property, sorted by name, the free function \<open><class>_<Property>\<close>
  followed, when the property is not immutable, by \<open><class>_Set<Property>\<close>, then the
  methods with a receiver.
\<close>

theorem static_members:
  fixes env :: "('k::linorder) Externals"
  shows
  "fst (emitInterface env (GoClass_new env super)) =
     [ Documenter (Type.docs (GoType.type super)),
       OpenBlock (''type '' @ GoType.name super @ '' interface'') ]
     @ (case base (GoType.type super) of
          Some b \<Rightarrow>
            [Line (scopedInterfaceName env
                     (Type.reference (GoType.type (findType env (Type.fqn b)))) (pkg super))]
        | None \<Rightarrow> [])
     @ map (\<lambda>g. Line (scopedInterfaceName env (Type.reference (GoType.type g)) (pkg super)))
         (sort_key (\<lambda>g. collate env (GoType.fqn g))
            (map (\<lambda>iface. findType env (Type.fqn iface)) (interfaces (GoType.type super))))
     @ concat (map (\<lambda>p. [GetterDecl p, SetterDecl p])
                 (sort_key (\<lambda>p. collate env (Member.name p))
                    (filter (\<lambda>p. \<not> static p) (ownProperties (GoType.type super)))))
     @ map (\<lambda>m. Line (Member.name m @ ''('' @ paramString m @ '')''
                      @ (if (case Method.reference m of Some r \<Rightarrow> void r | None \<Rightarrow> False)
                         then ''''
                         else '' '' @ (case Method.reference m of
                                         Some r \<Rightarrow> scopedInterfaceName env (ref r) (pkg super)
                                       | None \<Rightarrow> toString m))))
         (sort_key (\<lambda>m. collate env (Member.name m))
            (filter (\<lambda>m. \<not> static m) (ownMethods (GoType.type super))))
     @ [ CloseBlock, Line '''' ] \<and>
   (\<forall>p. GetterDecl p \<in> set (fst (emitInterface env (GoClass_new env super))) \<or>
        SetterDecl p \<in> set (fst (emitInterface env (GoClass_new env super)))
        \<longrightarrow> \<not> static p \<and> p \<in> set (ownProperties (GoType.type super))) \<and>
   blocks (fst (emit env (GoClass_new env super))) =
     [ ''type '' @ GoType.name super @ '' interface'', ''type '' @ proxyName super @ '' struct'' ]
     @ (case ClassType.initializer (GoType.type super) of
          Some i \<Rightarrow>
            [ ''func New'' @ GoType.name super @ ''(''
              @ (if Initializer.parameters i = [] then ''''
                 else join '', '' (map (paramToString env) (Initializer.parameters i)))
              @ '') '' @ GoType.name super ]
        | None \<Rightarrow> [])
     @ map (\<lambda>m. ''func '' @ GoType.name super @ ''_'' @ Member.name m @ ''('' @ paramString m @ '')''
                @ (if (case Method.reference m of Some r \<Rightarrow> void r | None \<Rightarrow> False)
                   then ''''
                   else '' '' @ (case Method.reference m of
                                   Some r \<Rightarrow> scopedInterfaceName env (ref r) (pkg super)
                                 | None \<Rightarrow> toString m)))
         (sort_key (\<lambda>m. collate env (Member.name m))
            (filter static (ownMethods (GoType.type super))))
     @ concat (map (\<lambda>p. (''func '' @ GoType.name super @ ''_'' @ toPascalCase env (Member.name p)
                         @ ''() '' @ returnType p)
                        # (if immutable p then []
                           else [ ''func '' @ GoType.name super @ ''_Set''
                                  @ toPascalCase env (Member.name p)
                                  @ ''(val '' @ returnType p @ '')'' ]))
                 (sort_key (\<lambda>p. collate env (Member.name p))
                    (filter static (ownProperties (GoType.type super)))))
     @ map (\<lambda>m. ''func ('' @ toLowerCase env (take 1 (GoType.name super)) @ '' *'' @ proxyName super
                @ '') '' @ Member.name m @ ''('' @ paramString m @ '')''
                @ (if (case Method.reference m of Some r \<Rightarrow> void r | None \<Rightarrow> False)
                   then ''''
                   else '' '' @ (case Method.reference m of
                                   Some r \<Rightarrow> scopedInterfaceName env (ref r) (pkg super)
                                 | None \<Rightarrow> toString m)))
         (methods (GoClass_new env super)
          @ (case reimplementedMethods (GoClass_new env super) of Some ms \<Rightarrow> ms | None \<Rightarrow> []))"
proof -
  let ?c = "GoClass_new env super"
  let ?ty = "GoType.type super"
  have fields: "GoType.name ?c = GoType.name super" "proxyName ?c = proxyName super"
    "pkg ?c = pkg super" "GoType.type ?c = ?ty" "extends' ?c = None" "implements' ?c = None"
    "properties ?c = sort_key (\<lambda>p. collate env (Member.name p))
                       (filter (\<lambda>p. \<not> static p) (ownProperties ?ty))"
    "methods ?c = sort_key (\<lambda>m. collate env (Member.name m))
                    (filter (\<lambda>m. \<not> static m) (ownMethods ?ty))"
    "staticMethods ?c = sort_key (\<lambda>m. collate env (Member.name m))
                          (filter static (ownMethods ?ty))"
    "staticProperties ?c = sort_key (\<lambda>p. collate env (Member.name p))
                             (filter static (ownProperties ?ty))"
    "GoClass.initializer ?c = map_option GoClassConstructor_new (ClassType.initializer ?ty)"
    by (simp_all add: GoClass_new_def Let_def byName_collate split: option.splits)
  have rts: "returnTypeString env ?c m =
      (if (case Method.reference m of Some r \<Rightarrow> void r | None \<Rightarrow> False)
       then ''''
       else '' '' @ (case Method.reference m of
                       Some r \<Rightarrow> scopedInterfaceName env (ref r) (pkg super)
                     | None \<Rightarrow> toString m))" for m
    by (cases "Method.reference m") (simp_all add: returnTypeString_def ClassMethod_returnType_def fields)
  have i: "fst (emitInterface env ?c) =
     [ Documenter (Type.docs ?ty),
       OpenBlock (''type '' @ GoType.name super @ '' interface'') ]
     @ (case base ?ty of
          Some b \<Rightarrow>
            [Line (scopedInterfaceName env
                     (Type.reference (GoType.type (findType env (Type.fqn b)))) (pkg super))]
        | None \<Rightarrow> [])
     @ map (\<lambda>g. Line (scopedInterfaceName env (Type.reference (GoType.type g)) (pkg super)))
         (sort_key (\<lambda>g. collate env (GoType.fqn g))
            (map (\<lambda>iface. findType env (Type.fqn iface)) (interfaces ?ty)))
     @ concat (map (\<lambda>p. [GetterDecl p, SetterDecl p])
                 (sort_key (\<lambda>p. collate env (Member.name p))
                    (filter (\<lambda>p. \<not> static p) (ownProperties ?ty))))
     @ map (\<lambda>m. Line (Member.name m @ ''('' @ paramString m @ '')''
                      @ (if (case Method.reference m of Some r \<Rightarrow> void r | None \<Rightarrow> False)
                         then ''''
                         else '' '' @ (case Method.reference m of
                                         Some r \<Rightarrow> scopedInterfaceName env (ref r) (pkg super)
                                       | None \<Rightarrow> toString m))))
         (sort_key (\<lambda>m. collate env (Member.name m))
            (filter (\<lambda>m. \<not> static m) (ownMethods ?ty)))
     @ [ CloseBlock, Line '''' ]"
  proof -
    have e: "extends env ?c =
        (map_option (\<lambda>b. findType env (Type.fqn b)) (base ?ty),
         ?c\<lparr> extends' := Some (map_option (\<lambda>b. findType env (Type.fqn b)) (base ?ty)) \<rparr>)"
      using extends_fresh [of ?c env] fields by simp
    have im: "fst (implements env (?c\<lparr> extends' := x \<rparr>)) =
        sort_key (\<lambda>g. collate env (GoType.fqn g))
          (map (\<lambda>iface. findType env (Type.fqn iface)) (interfaces ?ty))" for x
      using implements_fresh [of "?c\<lparr> extends' := x \<rparr>" env] fields by simp
    have d: "concat (map (ClassMethod_emitDecl env ?c) ms) =
        map (\<lambda>m. Line (Member.name m @ ''('' @ paramString m @ '')''
                      @ (if (case Method.reference m of Some r \<Rightarrow> void r | None \<Rightarrow> False)
                         then ''''
                         else '' '' @ (case Method.reference m of
                                         Some r \<Rightarrow> scopedInterfaceName env (ref r) (pkg super)
                                       | None \<Rightarrow> toString m)))) ms" for ms
      by (induction ms) (simp_all add: ClassMethod_emitDecl_def rts)
    show ?thesis
      unfolding emitInterface_def e split_def Let_def fst_conv snd_conv im d fields
      by (cases "base ?ty") simp_all
  qed
  have g: "\<not> static p \<and> p \<in> set (ownProperties ?ty)"
    if "GetterDecl p \<in> set (fst (emitInterface env ?c)) \<or>
        SetterDecl p \<in> set (fst (emitInterface env ?c))" for p
    using that unfolding i by (auto split: option.splits)
  have b: "blocks (fst (emit env ?c)) =
     [ ''type '' @ GoType.name super @ '' interface'', ''type '' @ proxyName super @ '' struct'' ]
     @ (case ClassType.initializer ?ty of
          Some i \<Rightarrow>
            [ ''func New'' @ GoType.name super @ ''(''
              @ (if Initializer.parameters i = [] then ''''
                 else join '', '' (map (paramToString env) (Initializer.parameters i)))
              @ '') '' @ GoType.name super ]
        | None \<Rightarrow> [])
     @ map (\<lambda>m. ''func '' @ GoType.name super @ ''_'' @ Member.name m @ ''('' @ paramString m @ '')''
                @ (if (case Method.reference m of Some r \<Rightarrow> void r | None \<Rightarrow> False)
                   then ''''
                   else '' '' @ (case Method.reference m of
                                   Some r \<Rightarrow> scopedInterfaceName env (ref r) (pkg super)
                                 | None \<Rightarrow> toString m)))
         (sort_key (\<lambda>m. collate env (Member.name m)) (filter static (ownMethods ?ty)))
     @ concat (map (\<lambda>p. (''func '' @ GoType.name super @ ''_'' @ toPascalCase env (Member.name p)
                         @ ''() '' @ returnType p)
                        # (if immutable p then []
                           else [ ''func '' @ GoType.name super @ ''_Set''
                                  @ toPascalCase env (Member.name p)
                                  @ ''(val '' @ returnType p @ '')'' ]))
                 (sort_key (\<lambda>p. collate env (Member.name p)) (filter static (ownProperties ?ty))))
     @ map (\<lambda>m. ''func ('' @ toLowerCase env (take 1 (GoType.name super)) @ '' *'' @ proxyName super
                @ '') '' @ Member.name m @ ''('' @ paramString m @ '')''
                @ (if (case Method.reference m of Some r \<Rightarrow> void r | None \<Rightarrow> False)
                   then ''''
                   else '' '' @ (case Method.reference m of
                                   Some r \<Rightarrow> scopedInterfaceName env (ref r) (pkg super)
                                 | None \<Rightarrow> toString m)))
         (methods ?c @ (case reimplementedMethods ?c of Some ms \<Rightarrow> ms | None \<Rightarrow> []))"
    unfolding blocks_emit [of env ?c] blocks_members rts instanceArg_def concat_map_single
      fields(1,2,3,9,10,11)
    by (cases "ClassType.initializer ?ty") (simp_all add: GoClassConstructor_new_def)
  from i g b show ?thesis by blast
qed

theorem static_members_witness:
  "GetterDecl X \<in> set (fst (emitInterface exampleEnv Point)) \<and>
   \<not> static X \<and>
   X \<in> set (ownProperties (GoType.type (mkSuper ''Point'' PointType))) \<and>
   fst (emitInterface exampleEnv Point) =
     [ Documenter noDocs, OpenBlock ''type Point interface'', Line ''A.Printable'',
       GetterDecl X, SetterDecl X, Line ''Norm() string'', CloseBlock, Line '''' ] \<and>
   filter static (ownMethods (GoType.type (mkSuper ''Widget'' WidgetType))) = [Create] \<and>
   filter static (ownProperties (GoType.type (mkSuper ''Widget'' WidgetType))) = [Instances] \<and>
   \<not> immutable Instances \<and>
   blocks (fst (emit exampleEnv Widget)) =
     [ ''type Widget interface'', ''type jsiiProxy_Widget struct'',
       ''func NewWidget(label string) Widget'',
       ''func Widget_Create() string'',
       ''func Widget_Instances() string'', ''func Widget_SetInstances(val string)'',
       ''func (W *jsiiProxy_Widget) Render() string'' ]"
proof -
  note pi = static_members [of exampleEnv "mkSuper ''Point'' PointType", THEN conjunct1,
      folded Point_def]
  note pg = static_members [of exampleEnv "mkSuper ''Point'' PointType", THEN conjunct2,
      THEN conjunct1, folded Point_def]
  note wb = static_members [of exampleEnv "mkSuper ''Widget'' WidgetType", THEN conjunct2,
      THEN conjunct2, folded Widget_def]
  have po: "ownProperties (GoType.type (mkSuper ''Point'' PointType)) = [X]"
    "ownMethods (GoType.type (mkSuper ''Point'' PointType)) = [Norm]"
    "base (GoType.type (mkSuper ''Point'' PointType)) = None"
    "interfaces (GoType.type (mkSuper ''Point'' PointType)) = [mkType ''A'' ''A.Printable'']"
    by code_simp+
  have wo: "ownProperties (GoType.type (mkSuper ''Widget'' WidgetType)) = [Instances]"
    "ownMethods (GoType.type (mkSuper ''Widget'' WidgetType)) = [Render, Create]"
    "ClassType.initializer (GoType.type (mkSuper ''Widget'' WidgetType)) =
       Some \<lparr> Initializer.parameters = [''label string''], Initializer.docs = noDocs \<rparr>"
    "methods Widget = [Render]" "reimplementedMethods Widget = None"
    by code_simp+
  have mem: "static Create" "\<not> static Render" "static Instances" "\<not> immutable Instances"
    "\<not> static X" "\<not> static Norm"
    "Member.name Create = ''Create''" "Member.name Render = ''Render''"
    "Member.name Instances = ''Instances''" "Member.name Norm = ''Norm''"
    "paramString Create = ''''" "paramString Render = ''''" "paramString Norm = ''''"
    "Method.reference Create = None" "Method.reference Render = None" "Method.reference Norm = None"
    "toString Create = ''string''" "toString Render = ''string''" "toString Norm = ''string''"
    "returnType Instances = ''string''"
    by (simp_all add: Create_def Render_def Instances_def X_def Norm_def mkMethod_def mkProperty_def)
  have env: "findType exampleEnv ''A.Printable'' = mkGoType ''A'' ''A.Printable'' ''Printable''"
    "scopedInterfaceName exampleEnv = (\<lambda>r p. r)" "toPascalCase exampleEnv = (\<lambda>s. s)"
    "toLowerCase exampleEnv = (\<lambda>s. s)" "paramToString exampleEnv = (\<lambda>p. p)"
    by (simp_all add: exampleEnv_def)
  have sup: "GoType.name (mkSuper ''Point'' PointType) = ''Point''"
    "pkg (mkSuper ''Point'' PointType) = ''A''"
    "Type.docs (GoType.type (mkSuper ''Point'' PointType)) = noDocs"
    "GoType.name (mkSuper ''Widget'' WidgetType) = ''Widget''"
    "proxyName (mkSuper ''Widget'' WidgetType) = ''jsiiProxy_Widget''"
    "pkg (mkSuper ''Widget'' WidgetType) = ''A''"
    by (simp_all add: mkSuper_def PointType_def WidgetType_def)
  have i: "fst (emitInterface exampleEnv Point) =
     [ Documenter noDocs, OpenBlock ''type Point interface'', Line ''A.Printable'',
       GetterDecl X, SetterDecl X, Line ''Norm() string'', CloseBlock, Line '''' ]"
    using pi unfolding po sup
    by (simp add: mem env mkType_def mkGoType_def)
  then have gx: "GetterDecl X \<in> set (fst (emitInterface exampleEnv Point))"
    by simp
  with pg have sx: "\<not> static X \<and> X \<in> set (ownProperties (GoType.type (mkSuper ''Point'' PointType)))"
    by blast
  have fs: "filter static (ownMethods (GoType.type (mkSuper ''Widget'' WidgetType))) = [Create]"
    "filter static (ownProperties (GoType.type (mkSuper ''Widget'' WidgetType))) = [Instances]"
    unfolding wo by (simp_all add: mem)
  have b: "blocks (fst (emit exampleEnv Widget)) =
     [ ''type Widget interface'', ''type jsiiProxy_Widget struct'',
       ''func NewWidget(label string) Widget'',
       ''func Widget_Create() string'',
       ''func Widget_Instances() string'', ''func Widget_SetInstances(val string)'',
       ''func (W *jsiiProxy_Widget) Render() string'' ]"
    using wb unfolding fs wo sup
    by (simp add: mem env)
  from gx sx i fs mem(4) b show ?thesis by blast
qed

text \<open>
  C9. The constructor leaves both caches empty and does not consult the registry. The
  first read of \<open>extends\<close> or \<open>implements\<close> fills the cache; every later read, whatever
  the registry has become, returns the same value and leaves the object as it is. The
  re-implementation lists are set by the constructor, and no getter and no emitter
  changes them.
\<close>

theorem ancestors_cached:
  fixes env :: "('k::linorder) Externals" and env1 env2 :: "('k::linorder) Externals"
  shows
  "extends' (GoClass_new env super) = None \<and>
   implements' (GoClass_new env super) = None \<and>
   GoClass_new (env\<lparr> findType := r \<rparr>) super = GoClass_new env super \<and>
   (extends env1 this = (v, this') \<longrightarrow>
      extends' this' \<noteq> None \<and> extends env2 this' = (v, this')) \<and>
   (implements env1 this = (w, this'') \<longrightarrow>
      implements' this'' = Some w \<and> implements env2 this'' = (w, this'')) \<and>
   reimplementedMethods (snd (extends env1 this)) = reimplementedMethods this \<and>
   reimplementedProperties (snd (extends env1 this)) = reimplementedProperties this \<and>
   reimplementedMethods (snd (implements env1 this)) = reimplementedMethods this \<and>
   reimplementedProperties (snd (implements env1 this)) = reimplementedProperties this \<and>
   reimplementedMethods (snd (emit env1 this)) = reimplementedMethods this \<and>
   reimplementedProperties (snd (emit env1 this)) = reimplementedProperties this"
proof -
  have a: "extends' (GoClass_new env super) = None" "implements' (GoClass_new env super) = None"
    "GoClass_new (env\<lparr> findType := r \<rparr>) super = GoClass_new env super"
    by (simp_all add: GoClass_new_def Let_def byName_findType)
  have b: "extends' this' \<noteq> None \<and> extends env2 this' = (v, this')"
    if "extends env1 this = (v, this')"
    using that extends_again [OF that, of env2]
    by (auto simp: extends_def Let_def split: if_splits)
  have c: "implements' this'' = Some w \<and> implements env2 this'' = (w, this'')"
    if "implements env1 this = (w, this'')"
    using that implements_again [OF that, of env2]
    by (auto simp: implements_def Let_def split: option.splits)
  have d: "reimplementedMethods (snd (extends env1 this)) = reimplementedMethods this"
    "reimplementedProperties (snd (extends env1 this)) = reimplementedProperties this"
    by (simp_all add: extends_def Let_def)
  have e: "reimplementedMethods (snd (implements env1 this)) = reimplementedMethods this"
    "reimplementedProperties (snd (implements env1 this)) = reimplementedProperties this"
    by (simp_all add: implements_def Let_def split: option.splits)
  have f: "reimplementedMethods (snd (emit env1 this)) = reimplementedMethods this"
    "reimplementedProperties (snd (emit env1 this)) = reimplementedProperties this"
    by (simp_all add: snd_emit emitInterface_fields)
  from a b c d e f show ?thesis by blast
qed

theorem ancestors_cached_witness:
  "extends exampleEnv Widget =
     (Some (mkGoType ''A'' ''A.Base'' ''Base''),
      Widget\<lparr> extends' := Some (Some (mkGoType ''A'' ''A.Base'' ''Base'')) \<rparr>) \<and>
   extends otherEnv (Widget\<lparr> extends' := Some (Some (mkGoType ''A'' ''A.Base'' ''Base'')) \<rparr>) =
     (Some (mkGoType ''A'' ''A.Base'' ''Base''),
      Widget\<lparr> extends' := Some (Some (mkGoType ''A'' ''A.Base'' ''Base'')) \<rparr>) \<and>
   implements exampleEnv Widget =
     ([mkGoType ''A'' ''A.Printable'' ''Printable'', mkGoType ''B'' ''B.Mixin'' ''Mixin''],
      Widget\<lparr> implements' :=
                Some [mkGoType ''A'' ''A.Printable'' ''Printable'', mkGoType ''B'' ''B.Mixin'' ''Mixin''] \<rparr>) \<and>
   implements otherEnv
     (Widget\<lparr> implements' :=
               Some [mkGoType ''A'' ''A.Printable'' ''Printable'', mkGoType ''B'' ''B.Mixin'' ''Mixin''] \<rparr>) =
     ([mkGoType ''A'' ''A.Printable'' ''Printable'', mkGoType ''B'' ''B.Mixin'' ''Mixin''],
      Widget\<lparr> implements' :=
                Some [mkGoType ''A'' ''A.Printable'' ''Printable'', mkGoType ''B'' ''B.Mixin'' ''Mixin''] \<rparr>)"
proof -
  let ?b = "mkGoType ''A'' ''A.Base'' ''Base''"
  let ?is = "[mkGoType ''A'' ''A.Printable'' ''Printable'', mkGoType ''B'' ''B.Mixin'' ''Mixin'']"
  note t = ancestors_cached [where env = exampleEnv and super = "mkSuper ''Widget'' WidgetType"
      and ?env1.0 = exampleEnv and ?env2.0 = otherEnv and this = Widget
      and v = "Some ?b" and this' = "Widget\<lparr> extends' := Some (Some ?b) \<rparr>"
      and w = ?is and this'' = "Widget\<lparr> implements' := Some ?is \<rparr>", folded Widget_def]
  from t have fresh: "extends' Widget = None" "implements' Widget = None"
    by blast+
  have ty: "base (GoType.type Widget) = Some BaseDecl"
    "interfaces (GoType.type Widget) = [mkType ''B'' ''B.Mixin'', mkType ''A'' ''A.Printable'']"
    by (simp_all add: Widget_def GoClass_new_def Let_def WidgetType_def mkSuper_def base_def)
  have h1: "extends exampleEnv Widget = (Some ?b, Widget\<lparr> extends' := Some (Some ?b) \<rparr>)"
    unfolding extends_fresh [OF fresh(1)] ty
    by (simp add: exampleEnv_def BaseDecl_def)
  have h2: "implements exampleEnv Widget = (?is, Widget\<lparr> implements' := Some ?is \<rparr>)"
    unfolding implements_fresh [OF fresh(2)] ty
    by (simp add: exampleEnv_def mkType_def mkGoType_def)
  from t h1 have c1: "extends otherEnv (Widget\<lparr> extends' := Some (Some ?b) \<rparr>) =
      (Some ?b, Widget\<lparr> extends' := Some (Some ?b) \<rparr>)"
    by blast
  from t h2 have c2: "implements otherEnv (Widget\<lparr> implements' := Some ?is \<rparr>) =
      (?is, Widget\<lparr> implements' := Some ?is \<rparr>)"
    by blast
  from h1 c1 h2 c2 show ?thesis by (intro conjI)
qed

text \<open>
  C10. When loading the original assembly ends in a download failure, \<open>main\<close> returns 0
  and the last thing it writes to the standard error stream is the line
  \<^verbatim>\<open>Could not load '<resolved>': <failure>. Skipping analysis\<close>; the same
  holds when the original assembly was loaded and the updated one fails to download.
  A package named on the command line whose download fails is such a case, for the
  original and, once the original is loaded, for the updated assembly. \<open>main\<close>
  returns 1 exactly when both assemblies were loaded and the comparison counts at least
  one mismatch, and 0 when it counts none.
\<close>

theorem main_exit_code:
  "(snd (loadAssembly env (original argv)) = Inr (LoadFailure q rs reason) \<longrightarrow>
      snd (main env argv) = Inr 0 \<and>
      last (fst (main env argv)) =
        StderrWrite (''Could not load '' @ [CHR 0x27] @ rs @ [CHR 0x27] @ '': ''
                       @ showDownloadFailure env reason @ ''. Skipping analysis'' @ [CHR 0x0A])) \<and>
   (snd (loadAssembly env (original argv)) = Inr (LoadSuccess q1 rs1 orig) \<and>
    snd (loadAssembly env (updated argv)) = Inr (LoadFailure q rs reason) \<longrightarrow>
      snd (main env argv) = Inr 0 \<and>
      last (fst (main env argv)) =
        StderrWrite (''Could not load '' @ [CHR 0x27] @ rs @ [CHR 0x27] @ '': ''
                       @ showDownloadFailure env reason @ ''. Skipping analysis'' @ [CHR 0x0A])) \<and>
   (matchNpm (original argv) \<and> replaceNpm (original argv) \<noteq> '''' \<and>
    downloadNpmPackage env (replaceNpm (original argv)) = Inr (DownloadFailed reason) \<longrightarrow>
      snd (main env argv) = Inr 0) \<and>
   (snd (loadAssembly env (original argv)) = Inr (LoadSuccess q1 rs1 orig) \<and>
    matchNpm (updated argv) \<and> replaceNpm (updated argv) \<noteq> '''' \<and>
    downloadNpmPackage env (replaceNpm (updated argv)) = Inr (DownloadFailed reason) \<longrightarrow>
      snd (main env argv) = Inr 0) \<and>
   (snd (main env argv) = Inr 1 \<longleftrightarrow>
      (\<exists>q1 rs1 orig q2 rs2 upd mismatches.
         snd (loadAssembly env (original argv)) = Inr (LoadSuccess q1 rs1 orig) \<and>
         snd (loadAssembly env (updated argv)) = Inr (LoadSuccess q2 rs2 upd) \<and>
         compareAssemblies env orig upd (default_stability argv = ''experimental'') = Inr mismatches \<and>
         count mismatches > 0)) \<and>
   (snd (loadAssembly env (original argv)) = Inr (LoadSuccess q1 rs1 orig) \<and>
    snd (loadAssembly env (updated argv)) = Inr (LoadSuccess q2 rs2 upd) \<and>
    compareAssemblies env orig upd (default_stability argv = ''experimental'') = Inr mismatches \<and>
    count mismatches = 0 \<longrightarrow>
      snd (main env argv) = Inr 0)"
proof -
  have a: "snd (main env argv) = Inr 0 \<and> last (fst (main env argv)) =
        StderrWrite (''Could not load '' @ [CHR 0x27] @ rs @ [CHR 0x27] @ '': ''
                       @ showDownloadFailure env reason @ ''. Skipping analysis'' @ [CHR 0x0A])"
    if "snd (loadAssembly env (original argv)) = Inr (LoadFailure q rs reason)" for q rs reason
    using that by (auto simp: main_def Let_def split_def newline_def
          split: sum.splits LoadAssemblyResult.splits)
  have b: "snd (main env argv) = Inr 0 \<and> last (fst (main env argv)) =
        StderrWrite (''Could not load '' @ [CHR 0x27] @ rs @ [CHR 0x27] @ '': ''
                       @ showDownloadFailure env reason @ ''. Skipping analysis'' @ [CHR 0x0A])"
    if "snd (loadAssembly env (original argv)) = Inr (LoadSuccess q1 rs1 orig)"
      "snd (loadAssembly env (updated argv)) = Inr (LoadFailure q rs reason)" for q rs reason
    using that by (auto simp: main_def Let_def split_def newline_def
          split: sum.splits LoadAssemblyResult.splits)
  have c: "snd (main env argv) = Inr 0"
    if "matchNpm (original argv)" "replaceNpm (original argv) \<noteq> ''''"
      "downloadNpmPackage env (replaceNpm (original argv)) = Inr (DownloadFailed reason)"
  proof -
    have "\<exists>rs. snd (loadAssembly env (original argv)) = Inr (LoadFailure (original argv) rs reason)"
      using that by (simp add: loadAssembly_LoadFailure_iff)
    then show ?thesis using a by blast
  qed
  have c': "snd (main env argv) = Inr 0"
    if "snd (loadAssembly env (original argv)) = Inr (LoadSuccess q1 rs1 orig)"
      "matchNpm (updated argv)" "replaceNpm (updated argv) \<noteq> ''''"
      "downloadNpmPackage env (replaceNpm (updated argv)) = Inr (DownloadFailed reason)"
  proof -
    have "\<exists>rs. snd (loadAssembly env (updated argv)) = Inr (LoadFailure (updated argv) rs reason)"
      using that(2-4) by (simp add: loadAssembly_LoadFailure_iff)
    then show ?thesis using b [OF that(1)] by blast
  qed
  have d: "snd (main env argv) = Inr 1 \<longleftrightarrow>
      (\<exists>q1 rs1 orig q2 rs2 upd mismatches.
         snd (loadAssembly env (original argv)) = Inr (LoadSuccess q1 rs1 orig) \<and>
         snd (loadAssembly env (updated argv)) = Inr (LoadSuccess q2 rs2 upd) \<and>
         compareAssemblies env orig upd (default_stability argv = ''experimental'') = Inr mismatches \<and>
         count mismatches > 0)"
    by (auto simp: main_def Let_def split_def newline_def
          split: sum.splits LoadAssemblyResult.splits)
  have e: "snd (main env argv) = Inr 0"
    if "snd (loadAssembly env (original argv)) = Inr (LoadSuccess q1 rs1 orig)"
      "snd (loadAssembly env (updated argv)) = Inr (LoadSuccess q2 rs2 upd)"
      "compareAssemblies env orig upd (default_stability argv = ''experimental'') = Inr mismatches"
      "count mismatches = 0"
    using that by (auto simp: main_def Let_def split_def newline_def
          split: sum.splits LoadAssemblyResult.splits)
  from a b c c' d e show ?thesis by blast
qed

theorem main_exit_code_witness:
  "snd (loadAssembly exampleDiffEnv (original argvOriginalGone)) =
     Inr (LoadFailure ''npm:gone@1.0.0'' ''npm://gone@1.0.0'' ''404 Not Found'') \<and>
   snd (main exampleDiffEnv argvOriginalGone) = Inr 0 \<and>
   last (fst (main exampleDiffEnv argvOriginalGone)) =
     StderrWrite (''Could not load '' @ [CHR 0x27] @ ''npm://gone@1.0.0'' @ [CHR 0x27]
                  @ '': 404 Not Found. Skipping analysis'' @ [CHR 0x0A]) \<and>
   snd (loadAssembly exampleDiffEnv (original argvUpdatedGone)) = Inr (LoadSuccess ''old'' ''old'' asmV1) \<and>
   snd (loadAssembly exampleDiffEnv (updated argvUpdatedGone)) =
     Inr (LoadFailure ''npm://gone'' ''npm://gone@latest'' ''404 Not Found'') \<and>
   snd (main exampleDiffEnv argvUpdatedGone) = Inr 0 \<and>
   snd (main exampleDiffEnv argvBreaking) = Inr 1 \<and>
   snd (main exampleDiffEnv argvSame) = Inr 0"
proof -
  have l1: "snd (loadAssembly exampleDiffEnv (original argvOriginalGone)) =
     Inr (LoadFailure ''npm:gone@1.0.0'' ''npm://gone@1.0.0'' ''404 Not Found'')"
    by (simp add: loadAssembly_def loadAssembly_try_def matchNpm_def replaceNpm_def Let_def
          argvOriginalGone_def exampleDiffEnv_def)
  have l2: "snd (loadAssembly exampleDiffEnv (original argvUpdatedGone)) = Inr (LoadSuccess ''old'' ''old'' asmV1)"
    "snd (loadAssembly exampleDiffEnv (updated argvUpdatedGone)) =
       Inr (LoadFailure ''npm://gone'' ''npm://gone@latest'' ''404 Not Found'')"
    by (simp_all add: loadAssembly_def loadAssembly_try_def matchNpm_def replaceNpm_def Let_def
          argvUpdatedGone_def exampleDiffEnv_def)
  have l3: "snd (loadAssembly exampleDiffEnv (original argvBreaking)) =
       Inr (LoadSuccess ''npm:lib@1.0.0'' ''npm://lib@1.0.0'' asmV1)"
    "snd (loadAssembly exampleDiffEnv (updated argvBreaking)) = Inr (LoadSuccess ''.'' ''.'' asmV2)"
    "compareAssemblies exampleDiffEnv asmV1 asmV2 (default_stability argvBreaking = ''experimental'') =
       Inr \<lparr> count = 1, messages = [''removed''] \<rparr>"
    by (simp_all add: loadAssembly_def loadAssembly_try_def matchNpm_def replaceNpm_def Let_def
          argvBreaking_def exampleDiffEnv_def asmV1_def asmV2_def)
  have l4: "snd (loadAssembly exampleDiffEnv (original argvSame)) = Inr (LoadSuccess ''old'' ''old'' asmV1)"
    "snd (loadAssembly exampleDiffEnv (updated argvSame)) = Inr (LoadSuccess ''old'' ''old'' asmV1)"
    "compareAssemblies exampleDiffEnv asmV1 asmV1 (default_stability argvSame = ''experimental'') =
       Inr \<lparr> count = 0, messages = [] \<rparr>"
    by (simp_all add: loadAssembly_def loadAssembly_try_def matchNpm_def replaceNpm_def Let_def
          argvSame_def exampleDiffEnv_def)
  from main_exit_code [of exampleDiffEnv argvOriginalGone "''npm:gone@1.0.0''" "''npm://gone@1.0.0''"
      "''404 Not Found''"] l1
  have r0: "snd (main exampleDiffEnv argvOriginalGone) = Inr 0 \<and>
      last (fst (main exampleDiffEnv argvOriginalGone)) =
        StderrWrite (''Could not load '' @ [CHR 0x27] @ ''npm://gone@1.0.0'' @ [CHR 0x27] @ '': ''
                     @ showDownloadFailure exampleDiffEnv ''404 Not Found''
                     @ ''. Skipping analysis'' @ [CHR 0x0A])"
    by blast
  have sf: "showDownloadFailure exampleDiffEnv ''404 Not Found'' = ''404 Not Found''"
    by (simp add: exampleDiffEnv_def)
  have r1: "snd (main exampleDiffEnv argvOriginalGone) = Inr 0"
    "last (fst (main exampleDiffEnv argvOriginalGone)) =
       StderrWrite (''Could not load '' @ [CHR 0x27] @ ''npm://gone@1.0.0'' @ [CHR 0x27]
                    @ '': 404 Not Found. Skipping analysis'' @ [CHR 0x0A])"
    using r0 unfolding sf by simp_all
  from main_exit_code [of exampleDiffEnv argvUpdatedGone "''npm://gone''" "''npm://gone@latest''"
      "''404 Not Found''" "''old''" "''old''" asmV1] l2
  have r2: "snd (main exampleDiffEnv argvUpdatedGone) = Inr 0"
    by blast
  have "\<exists>q1 rs1 orig q2 rs2 upd mismatches.
         snd (loadAssembly exampleDiffEnv (original argvBreaking)) = Inr (LoadSuccess q1 rs1 orig) \<and>
         snd (loadAssembly exampleDiffEnv (updated argvBreaking)) = Inr (LoadSuccess q2 rs2 upd) \<and>
         compareAssemblies exampleDiffEnv orig upd (default_stability argvBreaking = ''experimental'')
           = Inr mismatches \<and>
         count mismatches > 0"
    using l3 by (intro exI [of _ "\<lparr> count = 1, messages = [''removed''] \<rparr>"] exI conjI) simp_all
  with main_exit_code [of exampleDiffEnv argvBreaking]
  have r3: "snd (main exampleDiffEnv argvBreaking) = Inr 1"
    by blast
  have z: "count \<lparr> count = 0, messages = [] \<rparr> = 0"
    by simp
  from main_exit_code [of exampleDiffEnv argvSame _ _ _ "''old''" "''old''" asmV1 "''old''" "''old''" asmV1
      "\<lparr> count = 0, messages = [] \<rparr>"] l4 z
  have r4: "snd (main exampleDiffEnv argvSame) = Inr 0"
    by blast
  from l1 r1 l2 r2 r3 r4 show ?thesis by (intro conjI)
qed

end
